theory Spec2Isabelle
  imports Complex_Main "HOL-Library.AList"
begin

section \<open>JavaScript values\<close>

text \<open>
  Inbound frames are the result of \<^verbatim>\<open>JSON.parse\<close>. Numbers are kept as integers
  (the client only tests them for truthiness and uses them as property keys).
  \<open>JUndefined\<close> is what a missing property reads as.
\<close>

datatype json =
    JUndefined
  | JNull
  | JBool bool
  | JNum int
  | JStr string
  | JArr "json list"
  | JObj "(string \<times> json) list"

text \<open>Truthiness, as tested by \<^verbatim>\<open>if (x)\<close>, \<^verbatim>\<open>!x\<close> and \<^verbatim>\<open>x || y\<close>.\<close>

fun truthy :: "json \<Rightarrow> bool" where
  "truthy JUndefined = False"
| "truthy JNull = False"
| "truthy (JBool b) = b"
| "truthy (JNum n) = (n \<noteq> 0)"
| "truthy (JStr s) = (s \<noteq> [])"
| "truthy (JArr xs) = True"
| "truthy (JObj kvs) = True"

text \<open>\<^verbatim>\<open>x && typeof x === "object"\<close>: arrays and objects (\<^verbatim>\<open>null\<close> is falsy).\<close>

fun is_object :: "json \<Rightarrow> bool" where
  "is_object (JArr xs) = True"
| "is_object (JObj kvs) = True"
| "is_object v = False"

text \<open>
  \<^verbatim>\<open>k in x\<close> and \<^verbatim>\<open>x.k\<close> for the property names the client reads
  (\<^verbatim>\<open>id\<close>, \<^verbatim>\<open>response\<close>, \<^verbatim>\<open>error\<close>, \<^verbatim>\<open>message\<close>, \<^verbatim>\<open>type\<close>): none of them is an
  array index or a member of a built-in prototype, so only an object's own keys count.
  Reading a property of \<^verbatim>\<open>null\<close> or \<^verbatim>\<open>undefined\<close> throws; the callers below
  test for that before they use \<open>get\<close>.
\<close>

fun has_key :: "string \<Rightarrow> json \<Rightarrow> bool" where
  "has_key k (JObj kvs) = (map_of kvs k \<noteq> None)"
| "has_key k v = False"

fun get :: "string \<Rightarrow> json \<Rightarrow> json" where
  "get k (JObj kvs) = (case map_of kvs k of Some v \<Rightarrow> v | None \<Rightarrow> JUndefined)"
| "get k v = JUndefined"

fun nullish :: "json \<Rightarrow> bool" where
  "nullish JUndefined = True"
| "nullish JNull = True"
| "nullish v = False"

text \<open>\<^verbatim>\<open>typeof x === "string" ? x : null\<close>\<close>

fun string_or_null :: "json \<Rightarrow> json" where
  "string_or_null (JStr s) = JStr s"
| "string_or_null v = JNull"

subsection \<open>Number.prototype.toString for integers\<close>

definition digit_char :: "nat \<Rightarrow> char" where
  "digit_char d = ''0123456789'' ! d"

function toString_nat :: "nat \<Rightarrow> string" where
  "toString_nat n =
     (if n < 10 then [digit_char n] else toString_nat (n div 10) @ [digit_char (n mod 10)])"
  by pat_completeness auto
termination
  by (relation "measure (\<lambda>n. n)") auto

definition toString_int :: "int \<Rightarrow> string" where
  "toString_int i = (if i < 0 then CHR ''-'' # toString_nat (nat (- i)) else toString_nat (nat i))"

subsection \<open>Property keys\<close>

text \<open>
  \<^verbatim>\<open>this.inflight[obj.id]\<close> converts \<^verbatim>\<open>obj.id\<close> to a string: a string is its own
  key, a number is printed, an array is its elements joined by commas (with
  \<^verbatim>\<open>null\<close> and \<^verbatim>\<open>undefined\<close> elements printed as nothing), any other object is
  \<^verbatim>\<open>[object Object]\<close>.
\<close>

fun js_toString :: "json \<Rightarrow> string"
  and js_join :: "json list \<Rightarrow> string" where
  "js_toString JUndefined = ''undefined''"
| "js_toString JNull = ''null''"
| "js_toString (JBool b) = (if b then ''true'' else ''false'')"
| "js_toString (JNum n) = toString_int n"
| "js_toString (JStr s) = s"
| "js_toString (JArr xs) = js_join xs"
| "js_toString (JObj kvs) = ''[object Object]''"
| "js_join [] = []"
| "js_join [x] = (if nullish x then [] else js_toString x)"
| "js_join (x # y # ys) = (if nullish x then [] else js_toString x) @ '','' @ js_join (y # ys)"

text \<open>
  The in-flight table is a plain object literal, so a lookup that finds no own key still
  finds the members of \<^verbatim>\<open>Object.prototype\<close>.
\<close>

definition Object_prototype_keys :: "string list" where
  "Object_prototype_keys =
     [''constructor'', ''hasOwnProperty'', ''isPrototypeOf'', ''propertyIsEnumerable'',
      ''toLocaleString'', ''toString'', ''valueOf'', ''__proto__'',
      ''__defineGetter__'', ''__defineSetter__'', ''__lookupGetter__'', ''__lookupSetter__'']"

section \<open>The client's state\<close>

datatype readyState = CONNECTING | OPEN | CLOSING | CLOSED

datatype reconnection = Idle | Reconnecting | Failed

datatype status =
  S_connecting | S_connected | S_reconnecting | S_failed | S_authenticated | S_unauthenticated

record ConnectionState =
  status :: status
  hasApiKey :: bool
  reconnectAttempt :: "nat option"
  maxAttempts :: "nat option"
  lastError_s :: "string option"

text \<open>\<^verbatim>\<open>this.error("Ran out of retries")\<close> passes a string, the other sites \<^verbatim>\<open>new Error(..)\<close>.\<close>

datatype err = ErrorStr string | ErrorObj string

type_synonym ref = nat
type_synonym handle = nat

text \<open>
  The two call classes. \<^verbatim>\<open>ServiceCallMulti\<close> declares the fields of
  \<^verbatim>\<open>ServiceCall\<close> again and adds \<^verbatim>\<open>receiver\<close>. The callbacks \<^verbatim>\<open>success\<close> and
  \<^verbatim>\<open>error\<close> are caller code: invoking them is recorded in the trace. The receiver's
  answer decides the control flow, so it is a field; as with every receiver the client
  itself builds, the answer depends on the payload only.
\<close>

record ServiceCall =
  mid :: string
  msg :: json
  timeout :: real
  retries :: int
  timeoutId :: "handle option"
  complete :: bool

record ServiceCallMulti = ServiceCall +
  receiver :: "json \<Rightarrow> bool"

datatype call = Single ServiceCall | Multi ServiceCallMulti

text \<open>What a pending timer runs when it fires: the bound method of a call object, or
  the reconnect closure of \<^verbatim>\<open>scheduleReconnect\<close>.\<close>

datatype timer_fn = Attempt ref | OnTimeout ref | Reconnect

datatype event =
    Log string
  | Sent json
  | CallSuccess ref json
  | CallError ref err
  | CallReceiver ref json
  | Notify ConnectionState
  | RemoveListeners
  | AddListeners
  | WsClose

text \<open>
  The fields of \<^verbatim>\<open>BaseApi\<close> (\<open>ws\<close> to \<open>lastError\<close>; \<open>ws\<close> is the socket's
  \<^verbatim>\<open>readyState\<close>, \<open>None\<close> when the field is \<^verbatim>\<open>undefined\<close>; \<open>id_num\<close> is the field
  \<^verbatim>\<open>id\<close>), followed by what the JavaScript runtime holds: the call objects by address,
  the pending timers in the order they were armed, the next timer handle and address, and
  the trace of outside effects. The in-flight table keeps insertion order, which is the
  order \<^verbatim>\<open>for .. in\<close> visits keys that are not array indices; identifiers other than
  \<^verbatim>\<open>__proto__\<close> are assumed.
\<close>

record world =
  ws :: "readyState option"
  tag :: string
  id_num :: nat
  token :: "string option"
  user :: string
  inflight :: "(string \<times> ref) list"
  reconnectAttempts :: nat
  maxReconnectAttempts :: nat
  reconnectTimer :: "handle option"
  reconnectionState :: reconnection
  lastError :: "string option"
  heap :: "ref \<rightharpoonup> call"
  timers :: "(handle \<times> timer_fn \<times> real) list"
  nextHandle :: handle
  nextRef :: ref
  trace :: "event list"

text \<open>
  What the environment decides during one handler run: whether \<^verbatim>\<open>ws.send\<close> throws,
  whether \<^verbatim>\<open>new WebSocket\<close> throws, and the values \<^verbatim>\<open>Math.random()\<close> returns to the
  call's backoff and to \<^verbatim>\<open>scheduleReconnect\<close> (each in \<open>[0, 1)\<close>).
\<close>

record env =
  send_throws :: bool
  ctor_throws :: bool
  rnd_backoff :: real
  rnd_reconnect :: real

datatype outcome = Normal | Threw

subsection \<open>Runtime primitives\<close>

definition emit :: "event \<Rightarrow> world \<Rightarrow> world" where
  "emit ev w = w\<lparr>trace := trace w @ [ev]\<rparr>"

definition setTimeout :: "timer_fn \<Rightarrow> real \<Rightarrow> world \<Rightarrow> handle \<times> world" where
  "setTimeout f d w =
     (nextHandle w,
      w\<lparr>timers := timers w @ [(nextHandle w, f, d)], nextHandle := Suc (nextHandle w)\<rparr>)"

definition clearTimeout :: "handle option \<Rightarrow> world \<Rightarrow> world" where
  "clearTimeout h w =
     (case h of None \<Rightarrow> w
      | Some t \<Rightarrow> w\<lparr>timers := filter (\<lambda>p. fst p \<noteq> t) (timers w)\<rparr>)"

text \<open>\<^verbatim>\<open>Math.pow(2, k)\<close> for an integer \<open>k\<close>.\<close>

definition Math_pow2 :: "int \<Rightarrow> real" where
  "Math_pow2 k = (if 0 \<le> k then 2 ^ nat k else 1 / 2 ^ nat (- k))"

section \<open>The connection manager: BaseApi\<close>

text \<open>\<^verbatim>\<open>getConnectionState\<close>; \<^verbatim>\<open>!!this.token\<close> is false for a missing or empty token.\<close>

definition getConnectionState :: "world \<Rightarrow> ConnectionState" where
  "getConnectionState w =
     (let hasKey = (case token w of None \<Rightarrow> False | Some t \<Rightarrow> t \<noteq> []);
          st = (if ws w = None \<or> ws w = Some CLOSED then
                  (if reconnectionState w = Failed then S_failed
                   else if reconnectionState w = Reconnecting then S_reconnecting
                   else S_connecting)
                else if ws w = Some CONNECTING then S_connecting
                else if ws w = Some OPEN then
                  (if hasKey then S_authenticated else S_unauthenticated)
                else S_connecting)
      in \<lparr>status = st, hasApiKey = hasKey,
          reconnectAttempt = (if st = S_reconnecting then Some (reconnectAttempts w) else None),
          maxAttempts = (if st = S_reconnecting then Some (maxReconnectAttempts w) else None),
          lastError_s = lastError w\<rparr>)"

text \<open>\<^verbatim>\<open>notifyStateChange\<close>: the snapshot is handed to every subscribed listener; a
  listener that throws is caught. One trace entry stands for the round.\<close>

definition notifyStateChange :: "world \<Rightarrow> world" where
  "notifyStateChange w = emit (Notify (getConnectionState w)) w"

text \<open>The loop \<^verbatim>\<open>for (const mid in this.inflight) this.inflight[mid].error(new Error(m))\<close>
  of \<^verbatim>\<open>scheduleReconnect\<close> and \<^verbatim>\<open>close\<close>.\<close>

definition fail_inflight :: "string \<Rightarrow> world \<Rightarrow> world" where
  "fail_inflight m w =
     w\<lparr>trace := trace w @ map (\<lambda>p. CallError (snd p) (ErrorObj m)) (inflight w)\<rparr>"

definition scheduleReconnect :: "env \<Rightarrow> world \<Rightarrow> world" where
  "scheduleReconnect e w =
     (if reconnectionState w = Reconnecting then
        emit (Log ''[socket] Reconnection already in progress, skipping'') w
      else if reconnectTimer w \<noteq> None then w
      else
        let w1 = notifyStateChange
                   (w\<lparr>reconnectionState := Reconnecting,
                      reconnectAttempts := Suc (reconnectAttempts w)\<rparr>)
        in if reconnectAttempts w1 > maxReconnectAttempts w1 then
             fail_inflight ''WebSocket connection failed''
               (notifyStateChange
                  ((emit (Log ''[socket] Max reconnection attempts reached'') w1)
                     \<lparr>reconnectionState := Failed,
                      lastError := Some ''Max reconnection attempts exceeded''\<rparr>))
           else
             let backoffDelay =
                   min (2000 * 2 ^ (reconnectAttempts w1 - 1) + rnd_reconnect e * 1000) 30000;
                 (h, w2) = setTimeout Reconnect backoffDelay
                             (emit (Log ''[socket] Reconnecting'') w1)
             in w2\<lparr>reconnectTimer := Some h\<rparr>)"

definition openSocket :: "env \<Rightarrow> world \<Rightarrow> world" where
  "openSocket e w =
     (if ws w = Some CONNECTING \<or> ws w = Some OPEN then w
      else
        let w1 = (if ws w \<noteq> None then (emit RemoveListeners w)\<lparr>ws := None\<rparr> else w);
            w2 = emit (Log ''SOCKET: connecting to'') w1
        in if ctor_throws e then
             scheduleReconnect e (emit (Log ''[socket creation error]'') w2)
           else emit AddListeners (w2\<lparr>ws := Some CONNECTING\<rparr>))"

definition reopen :: "env \<Rightarrow> world \<Rightarrow> world" where
  "reopen e w =
     (let w1 = emit (Log ''[socket reopen]'') w
      in if ws w1 = Some OPEN \<or> ws w1 = Some CONNECTING then w1 else openSocket e w1)"

definition onOpen :: "world \<Rightarrow> world" where
  "onOpen w =
     (let w1 = (emit (Log ''[socket open]'') w)
                 \<lparr>reconnectAttempts := 0, reconnectionState := Idle, lastError := None\<rparr>;
          w2 = (if reconnectTimer w1 \<noteq> None
                then (clearTimeout (reconnectTimer w1) w1)\<lparr>reconnectTimer := None\<rparr>
                else w1)
      in notifyStateChange w2)"

text \<open>\<^verbatim>\<open>onClose\<close>; the argument is \<^verbatim>\<open>event.reason\<close>.\<close>

definition onClose :: "env \<Rightarrow> string \<Rightarrow> world \<Rightarrow> world" where
  "onClose e reason w =
     scheduleReconnect e
       (notifyStateChange
          ((emit (Log ''[socket close]'') w)
             \<lparr>lastError := Some (''Connection closed: '' @
                                  (if reason \<noteq> [] then reason else ''Unknown reason'')),
              ws := None\<rparr>))"

definition onError :: "world \<Rightarrow> world" where
  "onError w =
     notifyStateChange
       ((emit (Log ''[socket error]'') w)\<lparr>lastError := Some ''Connection error occurred''\<rparr>)"

definition close :: "world \<Rightarrow> world" where
  "close w =
     (let w1 = (if reconnectTimer w \<noteq> None
                then (clearTimeout (reconnectTimer w) w)\<lparr>reconnectTimer := None\<rparr>
                else w);
          w2 = (if ws w1 \<noteq> None
                then (emit WsClose (emit RemoveListeners w1))\<lparr>ws := None\<rparr>
                else w1)
      in (fail_inflight ''Socket closed'' w2)\<lparr>inflight := []\<rparr>)"

definition getNextId :: "world \<Rightarrow> string \<times> world" where
  "getNextId w = (tag w @ ''-'' @ toString_nat (id_num w), w\<lparr>id_num := Suc (id_num w)\<rparr>)"

section \<open>The single-response call: ServiceCall\<close>

text \<open>\<^verbatim>\<open>calculateBackoff\<close>, from the remaining retries and the value of \<^verbatim>\<open>Math.random()\<close>.\<close>

definition calculateBackoff :: "int \<Rightarrow> real \<Rightarrow> real" where
  "calculateBackoff r rnd = min (2000 * Math_pow2 (3 - r) + rnd * 1000) 30000"

text \<open>The message of the error found in a reply:
  \<^verbatim>\<open>(typeof e.message === "string" ? e.message : null) || (.. e.type ..) || "Unknown error"\<close>.\<close>

definition errorMessage :: "json \<Rightarrow> string" where
  "errorMessage errorObj =
     (case string_or_null (get ''message'' errorObj) of
        JStr m \<Rightarrow> if m \<noteq> [] then m
                  else (case string_or_null (get ''type'' errorObj) of
                          JStr t \<Rightarrow> if t \<noteq> [] then t else ''Unknown error''
                        | _ \<Rightarrow> ''Unknown error'')
      | _ \<Rightarrow> (case string_or_null (get ''type'' errorObj) of
                JStr t \<Rightarrow> if t \<noteq> [] then t else ''Unknown error''
              | _ \<Rightarrow> ''Unknown error''))"

text \<open>The error looked for in a reply: directly in \<open>resp\<close>, or else nested under its
  \<^verbatim>\<open>response\<close> property; \<^verbatim>\<open>null\<close> when there is none.\<close>

definition errorToHandle :: "json \<Rightarrow> json" where
  "errorToHandle resp =
     (if is_object resp \<and> has_key ''error'' resp then get ''error'' resp
      else if is_object resp \<and> has_key ''response'' resp then
        (let response = get ''response'' resp
         in if is_object response \<and> has_key ''error'' response then get ''error'' response
            else JNull)
      else JNull)"

text \<open>
  \<^verbatim>\<open>onReceived(resp)\<close>. The last statement reads \<^verbatim>\<open>resp.response\<close>, which throws a
  TypeError when \<open>resp\<close> is \<^verbatim>\<open>null\<close> or \<^verbatim>\<open>undefined\<close>; the state changes made before stay.
\<close>

definition ServiceCall_onReceived :: "ref \<Rightarrow> json \<Rightarrow> world \<Rightarrow> outcome \<times> world" where
  "ServiceCall_onReceived a resp w =
     (case heap w a of
        Some (Single c) \<Rightarrow>
          let w1 = (if complete c
                    then emit (Log ''should not happen, request is already complete'') w
                    else w);
              w2 = clearTimeout (timeoutId c) w1;
              w3 = w2\<lparr>heap := (heap w2)(a \<mapsto> Single (c\<lparr>complete := True, timeoutId := None\<rparr>)),
                      inflight := AList.delete (mid c) (inflight w2)\<rparr>
          in if truthy (errorToHandle resp) then
               (Normal,
                emit (CallError a (ErrorObj (errorMessage (errorToHandle resp))))
                  (emit (Log ''ServiceCall: API error detected in response:'') w3))
             else if nullish resp then (Threw, w3)
             else (Normal, emit (CallSuccess a (get ''response'' resp)) w3)
      | _ \<Rightarrow> (Normal, w))"

definition ServiceCall_attempt :: "env \<Rightarrow> ref \<Rightarrow> world \<Rightarrow> world" where
  "ServiceCall_attempt e a w =
     (case heap w a of
        Some (Single c0) \<Rightarrow>
          let w1 = (if complete c0
                    then emit (Log ''attempt should not be called, request is already complete'') w
                    else w);
              c = c0\<lparr>retries := retries c0 - 1\<rparr>;
              w2 = w1\<lparr>heap := (heap w1)(a \<mapsto> Single c)\<rparr>
          in if retries c < 0 then
               emit (CallError a (ErrorStr ''Ran out of retries''))
                 ((clearTimeout (timeoutId c) (emit (Log ''ran out of retries'') w2))
                    \<lparr>inflight := AList.delete (mid c) (inflight w2)\<rparr>)
             else if ws w2 = Some OPEN then
               (if send_throws e then
                  let (h, w3) = setTimeout (Attempt a) (calculateBackoff (retries c) (rnd_backoff e))
                                  (emit (Log ''Message send failure, waiting for socket reconnection...'')
                                     (emit (Log ''Error:'') w2))
                  in w3\<lparr>heap := (heap w3)(a \<mapsto> Single (c\<lparr>timeoutId := Some h\<rparr>))\<rparr>
                else
                  let (h, w3) = setTimeout (OnTimeout a) (timeout c) (emit (Sent (msg c)) w2)
                  in w3\<lparr>heap := (heap w3)(a \<mapsto> Single (c\<lparr>timeoutId := Some h\<rparr>))\<rparr>)
             else
               snd (setTimeout (Attempt a) (calculateBackoff (retries c) (rnd_backoff e))
                      (emit (Log ''waiting for socket reconnection...'') w2))
      | _ \<Rightarrow> w)"

definition ServiceCall_retryNow :: "env \<Rightarrow> ref \<Rightarrow> world \<Rightarrow> world" where
  "ServiceCall_retryNow e a w =
     (case heap w a of
        Some (Single c) \<Rightarrow>
          if complete c then w
          else
            let w1 = clearTimeout (timeoutId c) w
            in ServiceCall_attempt e a
                 (w1\<lparr>heap := (heap w1)(a \<mapsto> Single (c\<lparr>timeoutId := None, retries := retries c + 1\<rparr>))\<rparr>)
      | _ \<Rightarrow> w)"

definition ServiceCall_onTimeout :: "env \<Rightarrow> ref \<Rightarrow> world \<Rightarrow> world" where
  "ServiceCall_onTimeout e a w =
     (case heap w a of
        Some (Single c) \<Rightarrow>
          let w1 = (if complete c
                    then emit (Log ''timeout should not happen, request is already complete'') w
                    else w)
          in ServiceCall_attempt e a (clearTimeout (timeoutId c) (emit (Log ''timed out'') w1))
      | _ \<Rightarrow> w)"

text \<open>\<^verbatim>\<open>start\<close>: \<^verbatim>\<open>this.socket.inflight[this.mid] = this\<close>, then the first attempt.\<close>

definition ServiceCall_start :: "env \<Rightarrow> ref \<Rightarrow> world \<Rightarrow> world" where
  "ServiceCall_start e a w =
     (case heap w a of
        Some (Single c) \<Rightarrow> ServiceCall_attempt e a (w\<lparr>inflight := AList.update (mid c) a (inflight w)\<rparr>)
      | _ \<Rightarrow> w)"

text \<open>The constructor: a new object with \<^verbatim>\<open>complete = false\<close> and no timer.\<close>

definition ServiceCall_new :: "string \<Rightarrow> json \<Rightarrow> real \<Rightarrow> int \<Rightarrow> world \<Rightarrow> ref \<times> world" where
  "ServiceCall_new m ms t r w =
     (nextRef w,
      w\<lparr>heap := (heap w)(nextRef w \<mapsto>
                   Single \<lparr>mid = m, msg = ms, timeout = t, retries = r, timeoutId = None,
                           complete = False\<rparr>),
        nextRef := Suc (nextRef w)\<rparr>)"

section \<open>The multi-response call: ServiceCallMulti\<close>

definition ServiceCallMulti_onReceived :: "ref \<Rightarrow> json \<Rightarrow> world \<Rightarrow> outcome \<times> world" where
  "ServiceCallMulti_onReceived a resp w =
     (case heap w a of
        Some (Multi c) \<Rightarrow>
          let w1 = (if complete c
                    then emit (Log ''should not happen, request is already complete'') w
                    else w);
              w2 = emit (CallReceiver a resp) w1
          in if receiver c resp then
               let w3 = clearTimeout (timeoutId c) w2
               in (Normal,
                   emit (CallSuccess a resp)
                     (w3\<lparr>heap := (heap w3)(a \<mapsto> Multi (c\<lparr>complete := True, timeoutId := None\<rparr>)),
                         inflight := AList.delete (mid c) (inflight w3)\<rparr>))
             else (Normal, w2)
      | _ \<Rightarrow> (Normal, w))"

definition ServiceCallMulti_attempt :: "env \<Rightarrow> ref \<Rightarrow> world \<Rightarrow> world" where
  "ServiceCallMulti_attempt e a w =
     (case heap w a of
        Some (Multi c0) \<Rightarrow>
          let w1 = (if complete c0
                    then emit (Log ''attempt should not be called, request is already complete'') w
                    else w);
              c = c0\<lparr>retries := retries c0 - 1\<rparr>;
              w2 = w1\<lparr>heap := (heap w1)(a \<mapsto> Multi c)\<rparr>
          in if retries c < 0 then
               emit (CallError a (ErrorStr ''Ran out of retries''))
                 ((clearTimeout (timeoutId c) (emit (Log ''ran out of retries'') w2))
                    \<lparr>inflight := AList.delete (mid c) (inflight w2)\<rparr>)
             else if ws w2 = Some OPEN then
               (if send_throws e then
                  let (h, w3) = setTimeout (Attempt a) (calculateBackoff (retries c) (rnd_backoff e))
                                  (emit (Log ''Message send failure, retry...'')
                                     (emit (Log ''Error:'') w2))
                  in reopen e
                       (emit (Log ''Reopen...'')
                          (w3\<lparr>heap := (heap w3)(a \<mapsto> Multi (c\<lparr>timeoutId := Some h\<rparr>))\<rparr>))
                else
                  let (h, w3) = setTimeout (OnTimeout a) (timeout c) (emit (Sent (msg c)) w2)
                  in w3\<lparr>heap := (heap w3)(a \<mapsto> Multi (c\<lparr>timeoutId := Some h\<rparr>))\<rparr>)
             else if ws w2 = Some CONNECTING then
               snd (setTimeout (Attempt a) 500 w2)
             else
               snd (setTimeout (Attempt a) (calculateBackoff (retries c) (rnd_backoff e))
                      (reopen e (emit (Log ''Socket not ready, reopening...'') w2)))
      | _ \<Rightarrow> w)"

definition ServiceCallMulti_retryNow :: "env \<Rightarrow> ref \<Rightarrow> world \<Rightarrow> world" where
  "ServiceCallMulti_retryNow e a w =
     (case heap w a of
        Some (Multi c) \<Rightarrow>
          if complete c then w
          else
            let w1 = clearTimeout (timeoutId c) w
            in ServiceCallMulti_attempt e a
                 (w1\<lparr>heap := (heap w1)(a \<mapsto> Multi (c\<lparr>timeoutId := None, retries := retries c + 1\<rparr>))\<rparr>)
      | _ \<Rightarrow> w)"

definition ServiceCallMulti_onTimeout :: "env \<Rightarrow> ref \<Rightarrow> world \<Rightarrow> world" where
  "ServiceCallMulti_onTimeout e a w =
     (case heap w a of
        Some (Multi c) \<Rightarrow>
          let w1 = (if complete c
                    then emit (Log ''timeout should not happen, request is already complete'') w
                    else w)
          in ServiceCallMulti_attempt e a (clearTimeout (timeoutId c) (emit (Log ''timed out'') w1))
      | _ \<Rightarrow> w)"

definition ServiceCallMulti_start :: "env \<Rightarrow> ref \<Rightarrow> world \<Rightarrow> world" where
  "ServiceCallMulti_start e a w =
     (case heap w a of
        Some (Multi c) \<Rightarrow>
          ServiceCallMulti_attempt e a (w\<lparr>inflight := AList.update (mid c) a (inflight w)\<rparr>)
      | _ \<Rightarrow> w)"

definition ServiceCallMulti_new ::
  "string \<Rightarrow> json \<Rightarrow> real \<Rightarrow> int \<Rightarrow> (json \<Rightarrow> bool) \<Rightarrow> world \<Rightarrow> ref \<times> world" where
  "ServiceCallMulti_new m ms t r f w =
     (nextRef w,
      w\<lparr>heap := (heap w)(nextRef w \<mapsto>
                   Multi \<lparr>mid = m, msg = ms, timeout = t, retries = r, timeoutId = None,
                          complete = False, receiver = f\<rparr>),
        nextRef := Suc (nextRef w)\<rparr>)"

section \<open>Dispatch: inbound frames and timers\<close>

text \<open>A method call on an entry of the in-flight table, or through a bound method kept
  by a timer, runs the method of the object's own class.\<close>

definition call_onReceived :: "ref \<Rightarrow> json \<Rightarrow> world \<Rightarrow> outcome \<times> world" where
  "call_onReceived a resp w =
     (case heap w a of
        Some (Single c) \<Rightarrow> ServiceCall_onReceived a resp w
      | Some (Multi c) \<Rightarrow> ServiceCallMulti_onReceived a resp w
      | None \<Rightarrow> (Normal, w))"

definition call_attempt :: "env \<Rightarrow> ref \<Rightarrow> world \<Rightarrow> world" where
  "call_attempt e a w =
     (case heap w a of
        Some (Single c) \<Rightarrow> ServiceCall_attempt e a w
      | Some (Multi c) \<Rightarrow> ServiceCallMulti_attempt e a w
      | None \<Rightarrow> w)"

definition call_onTimeout :: "env \<Rightarrow> ref \<Rightarrow> world \<Rightarrow> world" where
  "call_onTimeout e a w =
     (case heap w a of
        Some (Single c) \<Rightarrow> ServiceCall_onTimeout e a w
      | Some (Multi c) \<Rightarrow> ServiceCallMulti_onTimeout e a w
      | None \<Rightarrow> w)"

text \<open>
  \<^verbatim>\<open>onMessage\<close>. \<open>NoData\<close> is a falsy \<^verbatim>\<open>message.data\<close>, \<open>BadJson\<close> a text that
  \<^verbatim>\<open>JSON.parse\<close> rejects, \<open>Data obj\<close> a text that parses to \<open>obj\<close>. Everything thrown
  inside the handler (reading \<^verbatim>\<open>null.id\<close>, calling \<^verbatim>\<open>onReceived\<close> of a prototype
  member, the TypeError of \<^verbatim>\<open>onReceived\<close>) is caught and logged.
\<close>

datatype message_data = NoData | BadJson | Data json

definition onMessage :: "message_data \<Rightarrow> world \<Rightarrow> world" where
  "onMessage m w =
     (case m of
        NoData \<Rightarrow> w
      | BadJson \<Rightarrow> emit (Log ''[socket message parse error]'') w
      | Data obj \<Rightarrow>
          if nullish obj then emit (Log ''[socket message parse error]'') w
          else if truthy (get ''id'' obj) then
            (case map_of (inflight w) (js_toString (get ''id'' obj)) of
               Some a \<Rightarrow>
                 (case call_onReceived a (get ''response'' obj) w of
                    (Normal, w') \<Rightarrow> w'
                  | (Threw, w') \<Rightarrow> emit (Log ''[socket message parse error]'') w')
             | None \<Rightarrow>
                 if js_toString (get ''id'' obj) \<in> set Object_prototype_keys
                 then emit (Log ''[socket message parse error]'') w
                 else w)
          else w)"

text \<open>
  A pending timer fires: it leaves the list of pending timers and its function runs.
  The reconnect closure is \<^verbatim>\<open>() => { this.reconnectTimer = undefined; this.reopen(); }\<close>.
\<close>

definition fire :: "env \<Rightarrow> handle \<Rightarrow> world \<Rightarrow> world" where
  "fire e h w =
     (case find (\<lambda>p. fst p = h) (timers w) of
        None \<Rightarrow> w
      | Some (h', f, d) \<Rightarrow>
          let w1 = w\<lparr>timers := filter (\<lambda>p. fst p \<noteq> h) (timers w)\<rparr>
          in (case f of
                Attempt a \<Rightarrow> call_attempt e a w1
              | OnTimeout a \<Rightarrow> call_onTimeout e a w1
              | Reconnect \<Rightarrow> reopen e (w1\<lparr>reconnectTimer := None\<rparr>)))"

section \<open>Issuing requests\<close>

text \<open>The constructor of \<^verbatim>\<open>BaseApi\<close>; \<open>t\<close> is the string \<^verbatim>\<open>makeid(16)\<close> returns.\<close>

definition BaseApi_new :: "env \<Rightarrow> string \<Rightarrow> string \<Rightarrow> string option \<Rightarrow> world" where
  "BaseApi_new e t u tok =
     emit (Log ''SOCKET: socket opened'')
       (openSocket e
          \<lparr>ws = None, tag = t, id_num = 1, token = tok, user = u, inflight = [],
           reconnectAttempts = 0, maxReconnectAttempts = 10, reconnectTimer = None,
           reconnectionState = Idle, lastError = None, heap = Map.empty, timers = [],
           nextHandle = 1, nextRef = 0, trace = [Log ''SOCKET: opening socket...'']\<rparr>)"

text \<open>The envelope \<^verbatim>\<open>{id, service, request}\<close>, with \<^verbatim>\<open>flow\<close> when one is given and
  not empty.\<close>

definition envelope :: "string \<Rightarrow> string \<Rightarrow> json \<Rightarrow> string option \<Rightarrow> json" where
  "envelope m service request flow =
     JObj ([(''id'', JStr m), (''service'', JStr service), (''request'', request)] @
           (case flow of None \<Rightarrow> [] | Some f \<Rightarrow> if f \<noteq> [] then [(''flow'', JStr f)] else []))"

definition makeRequest ::
  "env \<Rightarrow> string \<Rightarrow> json \<Rightarrow> real option \<Rightarrow> int option \<Rightarrow> string option \<Rightarrow> world \<Rightarrow> ref \<times> world" where
  "makeRequest e service request tmo rts flow w =
     (let (m, w1) = getNextId w;
          t = (case tmo of None \<Rightarrow> 10000 | Some x \<Rightarrow> x);
          r = (case rts of None \<Rightarrow> 3 | Some x \<Rightarrow> x);
          (a, w2) = ServiceCall_new m (envelope m service request flow) t r w1
      in (a, ServiceCall_start e a w2))"

definition makeRequestMulti ::
  "env \<Rightarrow> string \<Rightarrow> json \<Rightarrow> (json \<Rightarrow> bool) \<Rightarrow> real option \<Rightarrow> int option \<Rightarrow> string option \<Rightarrow>
   world \<Rightarrow> ref \<times> world" where
  "makeRequestMulti e service request f tmo rts flow w =
     (let (m, w1) = getNextId w;
          t = (case tmo of None \<Rightarrow> 10000 | Some x \<Rightarrow> x);
          r = (case rts of None \<Rightarrow> 3 | Some x \<Rightarrow> x);
          (a, w2) = ServiceCallMulti_new m (envelope m service request flow) t r f w1
      in (a, ServiceCallMulti_start e a w2))"

section \<open>Observers and scenarios\<close>

text \<open>The callback invocations in a trace.\<close>

fun is_CallError :: "event \<Rightarrow> bool" where
  "is_CallError (CallError a x) = True"
| "is_CallError ev = False"

fun is_callback :: "event \<Rightarrow> bool" where
  "is_callback (CallSuccess a v) = True"
| "is_callback (CallError a x) = True"
| "is_callback (CallReceiver a v) = True"
| "is_callback ev = False"

text \<open>What a handler run added to the trace of the world it started from.\<close>

definition added :: "world \<Rightarrow> world \<Rightarrow> event list" where
  "added w w' = drop (length (trace w)) (trace w')"

text \<open>The inbound envelope \<^verbatim>\<open>{id, response}\<close>.\<close>

definition reply :: "string \<Rightarrow> json \<Rightarrow> message_data" where
  "reply m p = Data (JObj [(''id'', JStr m), (''response'', p)])"

text \<open>An environment in which nothing throws, and a connected client with no call.\<close>

definition env0 :: env where
  "env0 = \<lparr>send_throws = False, ctor_throws = False, rnd_backoff = 1 / 2, rnd_reconnect = 1 / 4\<rparr>"

definition client0 :: world where
  "client0 =
     \<lparr>ws = Some OPEN, tag = ''tab'', id_num = 1, token = None, user = ''u'', inflight = [],
      reconnectAttempts = 0, maxReconnectAttempts = 10, reconnectTimer = None,
      reconnectionState = Idle, lastError = None, heap = Map.empty, timers = [],
      nextHandle = 1, nextRef = 0, trace = []\<rparr>"

text \<open>Two calls in flight with different retry budgets, the socket gone and a reconnect
  timer pending.\<close>

definition busy_world :: world where
  "busy_world =
     client0\<lparr>ws := Some CLOSING, id_num := 3,
       inflight := [(''tab-1'', 0), (''tab-2'', 1)],
       heap := [0 \<mapsto> Single \<lparr>mid = ''tab-1'', msg = JNull, timeout = 10000, retries = 2,
                                 timeoutId = Some 1, complete = False\<rparr>,
                1 \<mapsto> Multi \<lparr>mid = ''tab-2'', msg = JNull, timeout = 10000, retries = 0,
                                timeoutId = None, complete = False, receiver = (\<lambda>v. False)\<rparr>],
       timers := [(1, OnTimeout 0, 10000), (2, Attempt 1, 16500), (3, Reconnect, 2250)],
       reconnectTimer := Some 3, reconnectAttempts := 1,
       nextHandle := 4, nextRef := 2\<rparr>"

text \<open>The same two calls after the socket has closed, with no reconnect scheduled: at
  the first drop, after five failed attempts, and with the attempts used up.\<close>

definition dropped_world :: world where
  "dropped_world = busy_world\<lparr>ws := None, reconnectTimer := None, timers := [],
     reconnectAttempts := 0\<rparr>"

definition dropped5_world :: world where
  "dropped5_world = dropped_world\<lparr>reconnectAttempts := 5\<rparr>"

definition exhausted_world :: world where
  "exhausted_world = dropped_world\<lparr>reconnectAttempts := 10\<rparr>"

text \<open>
  A request issued on the connected client: \<open>sent_world\<close> has call 0 under the
  identifier \<open>tab-1\<close>, sent once, with its timeout timer (handle 1) pending.
  In \<open>waiting_world\<close> that timer has fired while the socket was closing, so the second
  attempt only waits (timer 2). In \<open>done_world\<close> the reply to the first attempt has
  arrived after all and completed the call. In \<open>stale_world\<close> the socket is open again
  and timer 2 has fired.
\<close>

definition sent_world :: world where
  "sent_world = snd (makeRequest env0 ''echo'' (JObj [(''x'', JNum 1)]) None None None client0)"

definition waiting_world :: world where
  "waiting_world = fire env0 1 (sent_world\<lparr>ws := Some CLOSING\<rparr>)"

definition done_world :: world where
  "done_world = onMessage (reply ''tab-1'' (JObj [(''response'', JStr ''late'')])) waiting_world"

definition stale_world :: world where
  "stale_world = fire env0 2 (done_world\<lparr>ws := Some OPEN\<rparr>)"

text \<open>
  The life of a client instance: what can happen to it, one handler run at a time. The
  application issues requests or shuts the client down; the runtime delivers socket events
  and fires timers; \<open>ReadyState\<close> is the socket changing its state on its own. Any order
  is allowed, which covers every order the runtime can produce.
\<close>

datatype action =
    Request string json "real option" "int option" "string option"
  | RequestMulti string json "json \<Rightarrow> bool" "real option" "int option" "string option"
  | Message message_data
  | Timer handle
  | OpenEvent
  | CloseEvent string
  | ErrorEvent
  | Shutdown
  | ReadyState readyState

fun step :: "env \<Rightarrow> action \<Rightarrow> world \<Rightarrow> world" where
  "step e (Request service request tmo rts flow) w = snd (makeRequest e service request tmo rts flow w)"
| "step e (RequestMulti service request f tmo rts flow) w =
     snd (makeRequestMulti e service request f tmo rts flow w)"
| "step e (Message m) w = onMessage m w"
| "step e (Timer h) w = fire e h w"
| "step e OpenEvent w = onOpen w"
| "step e (CloseEvent reason) w = onClose e reason w"
| "step e ErrorEvent w = onError w"
| "step e Shutdown w = close w"
| "step e (ReadyState rs) w = (if ws w = None then w else w\<lparr>ws := Some rs\<rparr>)"

text \<open>The identifiers \<open>getNextId\<close> returns during a run, in the order of issue.\<close>

fun is_request :: "action \<Rightarrow> bool" where
  "is_request (Request service request tmo rts flow) = True"
| "is_request (RequestMulti service request f tmo rts flow) = True"
| "is_request act = False"

fun ids_issued :: "(env \<times> action) list \<Rightarrow> world \<Rightarrow> string list" where
  "ids_issued [] w = []"
| "ids_issued ((e, act) # rest) w =
     (if is_request act then [fst (getNextId w)] else []) @ ids_issued rest (step e act w)"

text \<open>
  A frame bears the identifier \<open>m\<close> when its \<^verbatim>\<open>id\<close> is truthy and names the key
  \<open>m\<close> of the in-flight table. \<open>deliver\<close> hands frames to \<open>onMessage\<close> in their order
  of arrival.
\<close>

definition bears :: "string \<Rightarrow> json \<Rightarrow> bool" where
  "bears m obj = (truthy (get ''id'' obj) \<and> js_toString (get ''id'' obj) = m)"

definition deliver :: "json list \<Rightarrow> world \<Rightarrow> world" where
  "deliver fs w = fold (\<lambda>obj. onMessage (Data obj)) fs w"

text \<open>
  The callbacks a stream of payloads is expected to cause for the call at \<open>a\<close> with the
  receiver \<open>f\<close>: the receiver once per payload, in order, up to and including the first
  payload it accepts; the success callback with that payload; nothing afterwards.
\<close>

fun stream_events :: "ref \<Rightarrow> (json \<Rightarrow> bool) \<Rightarrow> json list \<Rightarrow> event list" where
  "stream_events a f [] = []"
| "stream_events a f (p # ps) =
     CallReceiver a p # (if f p then [CallSuccess a p] else stream_events a f ps)"

text \<open>A streaming call in flight whose receiver accepts a payload with a truthy
  \<^verbatim>\<open>done\<close> property.\<close>

definition stream_world :: world where
  "stream_world =
     snd (makeRequestMulti env0 ''agent'' (JObj [(''question'', JStr ''q'')])
            (\<lambda>p. truthy (get ''done'' p)) None None None client0)"

text \<open>
  A call that gets no reply is driven by its own timers only. \<open>next_timer\<close> is the
  earliest pending timer bound to the call at \<open>a\<close>, \<open>pump\<close> lets it fire, and
  \<open>run_timers\<close> does so once for each environment of a list.
\<close>

definition next_timer :: "ref \<Rightarrow> world \<Rightarrow> (handle \<times> timer_fn \<times> real) option" where
  "next_timer a w = find (\<lambda>p. fst (snd p) = Attempt a \<or> fst (snd p) = OnTimeout a) (timers w)"

definition pump :: "ref \<Rightarrow> env \<Rightarrow> world \<Rightarrow> world" where
  "pump a e w = (case next_timer a w of None \<Rightarrow> w | Some (h, f, d) \<Rightarrow> fire e h w)"

definition run_timers :: "ref \<Rightarrow> env list \<Rightarrow> world \<Rightarrow> world" where
  "run_timers a es w = fold (pump a) es w"

text \<open>A client whose socket is gone, and a request issued on it with no retry budget.\<close>

definition offline0 :: world where
  "offline0 = client0\<lparr>ws := None\<rparr>"

definition no_budget_world :: world where
  "no_budget_world = snd (makeRequest env0 ''echo'' JNull None (Some 0) None offline0)"

text \<open>
  The world in which the call constructed from \<open>m\<close>, \<open>ms\<close>, \<open>t\<close> and the budget \<open>r\<close>
  in \<open>w\<close> has been started and \<open>k\<close> of its timers have fired while the socket was not
  open: it has made \<open>k + 1\<close> attempts, each of which only armed a backoff timer; the last
  of these timers, armed in the environment \<open>e\<close>, is pending.
\<close>

definition waiting_state :: "world \<Rightarrow> string \<Rightarrow> json \<Rightarrow> real \<Rightarrow> int \<Rightarrow> nat \<Rightarrow> env \<Rightarrow> world" where
  "waiting_state w m ms t r k e =
     w\<lparr>inflight := AList.update m (nextRef w) (inflight w),
       heap := (heap w)(nextRef w \<mapsto>
                 Single \<lparr>mid = m, msg = ms, timeout = t, retries = r - 1 - int k,
                         timeoutId = None, complete = False\<rparr>),
       timers := timers w @
         [(nextHandle w + k, Attempt (nextRef w),
           calculateBackoff (r - 1 - int k) (rnd_backoff e))],
       nextHandle := Suc (nextHandle w + k),
       nextRef := Suc (nextRef w),
       trace := trace w @ replicate (Suc k) (Log ''waiting for socket reconnection...'')\<rparr>"

text \<open>
  The call is constructed, started in the environment \<open>e\<close>, and then left to its own
  timers, which fire one after the other in the environments \<open>es\<close>: \<open>attempt\<close> is
  invoked \<open>length es + 1\<close> times.
\<close>

definition unanswered :: "env \<Rightarrow> env list \<Rightarrow> string \<Rightarrow> json \<Rightarrow> real \<Rightarrow> int \<Rightarrow> world \<Rightarrow> world" where
  "unanswered e es m ms t r w =
     run_timers (nextRef w) es (ServiceCall_start e (nextRef w) (snd (ServiceCall_new m ms t r w)))"

text \<open>
  To compare the two classes, the same call is placed at an address once as a
  \<^verbatim>\<open>ServiceCall\<close> and once as a \<^verbatim>\<open>ServiceCallMulti\<close> with some receiver. The view of a
  world taken for the comparison is the call's shared fields together with everything
  else the world holds, console lines left out (the two classes word some of them
  differently).
\<close>

definition demo_call :: ServiceCall where
  "demo_call = \<lparr>mid = ''tab-1'', msg = JNull, timeout = 10000, retries = 3, timeoutId = None,
                complete = False\<rparr>"

definition to_multi :: "ServiceCall \<Rightarrow> (json \<Rightarrow> bool) \<Rightarrow> ServiceCallMulti" where
  "to_multi c f = \<lparr>mid = mid c, msg = msg c, timeout = timeout c, retries = retries c,
                   timeoutId = timeoutId c, complete = complete c, receiver = f\<rparr>"

definition single_at :: "ref \<Rightarrow> ServiceCall \<Rightarrow> world \<Rightarrow> world" where
  "single_at a c w = w\<lparr>heap := (heap w)(a \<mapsto> Single c)\<rparr>"

definition multi_at :: "ref \<Rightarrow> ServiceCall \<Rightarrow> (json \<Rightarrow> bool) \<Rightarrow> world \<Rightarrow> world" where
  "multi_at a c f w = w\<lparr>heap := (heap w)(a \<mapsto> Multi (to_multi c f))\<rparr>"

fun shared_fields :: "call \<Rightarrow> ServiceCall" where
  "shared_fields (Single c) = c"
| "shared_fields (Multi c) =
     \<lparr>mid = mid c, msg = msg c, timeout = timeout c, retries = retries c,
      timeoutId = timeoutId c, complete = complete c\<rparr>"

fun is_Log :: "event \<Rightarrow> bool" where
  "is_Log (Log s) = True"
| "is_Log ev = False"

definition call_view :: "ref \<Rightarrow> world \<Rightarrow> ServiceCall option \<times> world" where
  "call_view a w =
     (map_option shared_fields (heap w a),
      w\<lparr>heap := Map.empty, trace := filter (\<lambda>ev. \<not> is_Log ev) (trace w)\<rparr>)"

definition connecting0 :: world where
  "connecting0 = client0\<lparr>ws := Some CONNECTING\<rparr>"

text \<open>
  A run of the client from a given world, and a run in which a streaming call is left
  with a timer of its own after its stream has ended. The client connects and issues the
  call (sent, timeout timer 1); the socket closes and the reconnect timer 2 opens a new
  one; the call times out while that socket is still connecting, so its second attempt
  arms the 500 ms timer 3 without storing the handle; the socket opens and the final
  frame of the stream arrives.
\<close>

definition run :: "(env \<times> action) list \<Rightarrow> world \<Rightarrow> world" where
  "run acts w = fold (\<lambda>p. step (fst p) (snd p)) acts w"

definition stream_ended_world :: world where
  "stream_ended_world =
     run [(env0, ReadyState OPEN), (env0, OpenEvent),
          (env0, RequestMulti ''agent'' (JObj [(''question'', JStr ''q'')])
                   (\<lambda>p. truthy (get ''done'' p)) None None None),
          (env0, ReadyState CLOSED), (env0, CloseEvent ''gone''),
          (env0, Timer 2),
          (env0, Timer 1),
          (env0, ReadyState OPEN), (env0, OpenEvent),
          (env0, Message (reply ''tab-1'' (JObj [(''done'', JBool True)])))]
       (BaseApi_new env0 ''tab'' ''u'' None)"

section \<open>Properties\<close>

subsection \<open>Timers\<close>

lemma find_fresh_append:
  "list_all (\<lambda>p. fst p \<noteq> h) ts \<Longrightarrow> find (\<lambda>p. fst p = h) (ts @ [(h, x)]) = Some (h, x)"
  by (induction ts) auto

lemma filter_fresh:
  "list_all (\<lambda>p. fst p \<noteq> h) ts \<Longrightarrow> filter (\<lambda>p. fst p \<noteq> h) ts = ts"
  by (induction ts) auto

lemma fire_appended:
  assumes "list_all (\<lambda>p. fst p \<noteq> h) ts" and "timers w = ts @ [(h, f, d)]"
  shows "fire e h w =
     (case f of Attempt a \<Rightarrow> call_attempt e a (w\<lparr>timers := ts\<rparr>)
      | OnTimeout a \<Rightarrow> call_onTimeout e a (w\<lparr>timers := ts\<rparr>)
      | Reconnect \<Rightarrow> reopen e (w\<lparr>timers := ts, reconnectTimer := None\<rparr>))"
  using assms
  by (simp add: fire_def find_fresh_append filter_fresh Let_def split: timer_fn.splits)

lemma filter_CallError_map [simp]:
  "filter is_CallError (map (\<lambda>p. CallError (f p) (g p)) xs) = map (\<lambda>p. CallError (f p) (g p)) xs"
  by (induction xs) auto

subsection \<open>Explicit shutdown\<close>

lemma close_eq:
  "close w =
     w\<lparr>reconnectTimer := None,
       timers := (case reconnectTimer w of None \<Rightarrow> timers w
                  | Some h \<Rightarrow> filter (\<lambda>p. fst p \<noteq> h) (timers w)),
       ws := None,
       inflight := [],
       trace := trace w @ (if ws w \<noteq> None then [RemoveListeners, WsClose] else [])
                  @ map (\<lambda>p. CallError (snd p) (ErrorObj ''Socket closed'')) (inflight w)\<rparr>"
  by (cases "reconnectTimer w"; cases "ws w")
     (simp_all add: close_def fail_inflight_def clearTimeout_def emit_def Let_def)

text \<open>
  Claim C6. For every state of the client, \<open>close\<close> leaves no reconnect timer (the
  pending one is no longer among the timers), detaches the handlers and closes the
  transport when there is one, invokes the error callback of each in-flight entry with
  the error "Socket closed" (as many invocations as the table has entries, in the
  table's order), and leaves the table empty. The call objects, and so their retry
  budgets, play no part and are not touched.
\<close>

theorem close_fails_every_inflight_call:
  "reconnectTimer (close w) = None
   \<and> (\<forall>h. reconnectTimer w = Some h \<longrightarrow> h \<notin> fst ` set (timers (close w)))
   \<and> ws (close w) = None
   \<and> (ws w \<noteq> None \<longrightarrow> take 2 (added w (close w)) = [RemoveListeners, WsClose])
   \<and> filter is_CallError (added w (close w))
        = map (\<lambda>p. CallError (snd p) (ErrorObj ''Socket closed'')) (inflight w)
   \<and> length (filter is_CallError (added w (close w))) = length (inflight w)
   \<and> inflight (close w) = []
   \<and> heap (close w) = heap w"
  unfolding close_eq added_def by auto

theorem close_fails_every_inflight_call_witness:
  "reconnectTimer (close busy_world) = None
   \<and> 3 \<notin> fst ` set (timers (close busy_world))
   \<and> ws (close busy_world) = None
   \<and> take 2 (added busy_world (close busy_world)) = [RemoveListeners, WsClose]
   \<and> filter is_CallError (added busy_world (close busy_world))
        = [CallError 0 (ErrorObj ''Socket closed''), CallError 1 (ErrorObj ''Socket closed'')]
   \<and> length (filter is_CallError (added busy_world (close busy_world))) = 2
   \<and> inflight (close busy_world) = []"
  using close_fails_every_inflight_call [of busy_world]
  by (simp add: busy_world_def client0_def)

subsection \<open>Reconnection\<close>

lemma scheduleReconnect_in_progress:
  "reconnectionState w = Reconnecting \<Longrightarrow>
   scheduleReconnect e w = emit (Log ''[socket] Reconnection already in progress, skipping'') w"
  by (simp add: scheduleReconnect_def)

lemma scheduleReconnect_pending:
  "reconnectionState w \<noteq> Reconnecting \<Longrightarrow> reconnectTimer w \<noteq> None \<Longrightarrow> scheduleReconnect e w = w"
  by (simp add: scheduleReconnect_def)

lemma scheduleReconnect_exhausted:
  assumes "reconnectionState w \<noteq> Reconnecting" "reconnectTimer w = None"
    and "maxReconnectAttempts w < Suc (reconnectAttempts w)"
  shows "scheduleReconnect e w =
     w\<lparr>reconnectionState := Failed,
       reconnectAttempts := Suc (reconnectAttempts w),
       lastError := Some ''Max reconnection attempts exceeded'',
       trace := trace w @
         [Notify (getConnectionState (w\<lparr>reconnectionState := Reconnecting,
                                         reconnectAttempts := Suc (reconnectAttempts w)\<rparr>)),
          Log ''[socket] Max reconnection attempts reached'',
          Notify (getConnectionState (w\<lparr>reconnectionState := Failed,
                                         reconnectAttempts := Suc (reconnectAttempts w),
                                         lastError := Some ''Max reconnection attempts exceeded''\<rparr>))] @
         map (\<lambda>p. CallError (snd p) (ErrorObj ''WebSocket connection failed'')) (inflight w)\<rparr>"
  using assms
  by (simp add: scheduleReconnect_def notifyStateChange_def fail_inflight_def emit_def Let_def
      getConnectionState_def)

lemma scheduleReconnect_armed:
  assumes "reconnectionState w \<noteq> Reconnecting" "reconnectTimer w = None"
    and "\<not> maxReconnectAttempts w < Suc (reconnectAttempts w)"
  shows "scheduleReconnect e w =
     w\<lparr>reconnectionState := Reconnecting,
       reconnectAttempts := Suc (reconnectAttempts w),
       reconnectTimer := Some (nextHandle w),
       timers := timers w @
         [(nextHandle w, Reconnect,
           min (2000 * 2 ^ reconnectAttempts w + rnd_reconnect e * 1000) 30000)],
       nextHandle := Suc (nextHandle w),
       trace := trace w @
         [Notify (getConnectionState (w\<lparr>reconnectionState := Reconnecting,
                                         reconnectAttempts := Suc (reconnectAttempts w)\<rparr>)),
          Log ''[socket] Reconnecting'']\<rparr>"
  using assms
  by (simp add: scheduleReconnect_def notifyStateChange_def setTimeout_def emit_def Let_def
      getConnectionState_def)

lemma maxReconnectAttempts_scheduleReconnect [simp]:
  "maxReconnectAttempts (scheduleReconnect e w) = maxReconnectAttempts w"
  by (simp add: scheduleReconnect_def notifyStateChange_def fail_inflight_def setTimeout_def
      emit_def Let_def)

lemma maxReconnectAttempts_openSocket [simp]:
  "maxReconnectAttempts (openSocket e w) = maxReconnectAttempts w"
  by (simp add: openSocket_def emit_def Let_def)

text \<open>
  Claim C7. \<open>scheduleReconnect\<close> changes nothing (it only writes a console line) while a
  reconnection is in progress, and nothing at all while a reconnect timer is pending.
  Otherwise it increments the attempt counter. If the counter then exceeds
  \<open>maxReconnectAttempts\<close> (10 in every client the constructor builds), the state becomes
  \<open>Failed\<close>, the error callback of every in-flight call is invoked with
  "WebSocket connection failed", and no timer is armed. If not, one timer is armed with
  the delay \<open>min (2000 * 2 ^ (attempt - 1) + jitter) 30000\<close>, which is at most 30000; no
  error callback runs; and when that timer fires it clears \<open>reconnectTimer\<close> and calls
  \<open>reopen\<close>.
\<close>

theorem scheduleReconnect_backoff:
  "(reconnectionState w = Reconnecting \<longrightarrow>
      scheduleReconnect e w = emit (Log ''[socket] Reconnection already in progress, skipping'') w)
   \<and> (reconnectionState w \<noteq> Reconnecting \<and> reconnectTimer w \<noteq> None \<longrightarrow>
      scheduleReconnect e w = w)
   \<and> (reconnectionState w \<noteq> Reconnecting \<and> reconnectTimer w = None \<longrightarrow>
      reconnectAttempts (scheduleReconnect e w) = Suc (reconnectAttempts w)
      \<and> (maxReconnectAttempts w < Suc (reconnectAttempts w) \<longrightarrow>
           reconnectionState (scheduleReconnect e w) = Failed
           \<and> filter is_CallError (added w (scheduleReconnect e w))
               = map (\<lambda>p. CallError (snd p) (ErrorObj ''WebSocket connection failed'')) (inflight w)
           \<and> timers (scheduleReconnect e w) = timers w
           \<and> reconnectTimer (scheduleReconnect e w) = None)
      \<and> (\<not> maxReconnectAttempts w < Suc (reconnectAttempts w) \<longrightarrow>
           reconnectionState (scheduleReconnect e w) = Reconnecting
           \<and> reconnectTimer (scheduleReconnect e w) = Some (nextHandle w)
           \<and> timers (scheduleReconnect e w) = timers w @
               [(nextHandle w, Reconnect,
                 min (2000 * 2 ^ (reconnectAttempts (scheduleReconnect e w) - 1)
                      + rnd_reconnect e * 1000) 30000)]
           \<and> min (2000 * 2 ^ (reconnectAttempts (scheduleReconnect e w) - 1)
                      + rnd_reconnect e * 1000) 30000 \<le> (30000::real)
           \<and> filter is_CallError (added w (scheduleReconnect e w)) = []
           \<and> (list_all (\<lambda>p. fst p \<noteq> nextHandle w) (timers w) \<longrightarrow>
                fire e' (nextHandle w) (scheduleReconnect e w)
                  = reopen e' ((scheduleReconnect e w)\<lparr>timers := timers w, reconnectTimer := None\<rparr>))))
   \<and> maxReconnectAttempts (BaseApi_new e t u tok) = 10"
proof -
  have a: "reconnectionState w = Reconnecting \<longrightarrow>
      scheduleReconnect e w = emit (Log ''[socket] Reconnection already in progress, skipping'') w"
    by (simp add: scheduleReconnect_in_progress)
  have b: "reconnectionState w \<noteq> Reconnecting \<and> reconnectTimer w \<noteq> None \<longrightarrow>
      scheduleReconnect e w = w"
    by (simp add: scheduleReconnect_pending)
  have c: "maxReconnectAttempts (BaseApi_new e t u tok) = 10"
    by (simp add: BaseApi_new_def emit_def)
  {
    assume h: "reconnectionState w \<noteq> Reconnecting" "reconnectTimer w = None"
      and x: "maxReconnectAttempts w < Suc (reconnectAttempts w)"
    have "reconnectAttempts (scheduleReconnect e w) = Suc (reconnectAttempts w)
       \<and> reconnectionState (scheduleReconnect e w) = Failed
       \<and> filter is_CallError (added w (scheduleReconnect e w))
               = map (\<lambda>p. CallError (snd p) (ErrorObj ''WebSocket connection failed'')) (inflight w)
       \<and> timers (scheduleReconnect e w) = timers w
       \<and> reconnectTimer (scheduleReconnect e w) = None"
      by (simp add: scheduleReconnect_exhausted [OF h x] h added_def)
  } note d = this
  {
    assume h: "reconnectionState w \<noteq> Reconnecting" "reconnectTimer w = None"
      and x: "\<not> maxReconnectAttempts w < Suc (reconnectAttempts w)"
    let ?w' = "scheduleReconnect e w"
    have eq: "timers ?w' = timers w @
               [(nextHandle w, Reconnect,
                 min (2000 * 2 ^ (reconnectAttempts ?w' - 1) + rnd_reconnect e * 1000) 30000)]"
      by (simp add: scheduleReconnect_armed [OF h x])
    have f: "list_all (\<lambda>p. fst p \<noteq> nextHandle w) (timers w) \<longrightarrow>
                fire e' (nextHandle w) ?w' = reopen e' (?w'\<lparr>timers := timers w, reconnectTimer := None\<rparr>)"
      using fire_appended [OF _ eq, of e'] by simp
    have "reconnectAttempts ?w' = Suc (reconnectAttempts w)
       \<and> reconnectionState ?w' = Reconnecting
       \<and> reconnectTimer ?w' = Some (nextHandle w)
       \<and> filter is_CallError (added w ?w') = []"
      by (simp add: scheduleReconnect_armed [OF h x] added_def)
    with eq f have "reconnectAttempts ?w' = Suc (reconnectAttempts w)
       \<and> reconnectionState ?w' = Reconnecting
       \<and> reconnectTimer ?w' = Some (nextHandle w)
       \<and> timers ?w' = timers w @
               [(nextHandle w, Reconnect,
                 min (2000 * 2 ^ (reconnectAttempts ?w' - 1) + rnd_reconnect e * 1000) 30000)]
       \<and> filter is_CallError (added w ?w') = []
       \<and> (list_all (\<lambda>p. fst p \<noteq> nextHandle w) (timers w) \<longrightarrow>
                fire e' (nextHandle w) ?w' = reopen e' (?w'\<lparr>timers := timers w, reconnectTimer := None\<rparr>))"
      by blast
  } note g = this
  have m: "min (2000 * 2 ^ (reconnectAttempts (scheduleReconnect e w) - 1)
                      + rnd_reconnect e * 1000) 30000 \<le> (30000::real)"
    by simp
  from a b c d g m show ?thesis by blast
qed

lemmas demo_defs = dropped_world_def dropped5_world_def exhausted_world_def busy_world_def client0_def env0_def

theorem scheduleReconnect_backoff_witness:
  "scheduleReconnect env0 (dropped_world\<lparr>reconnectionState := Reconnecting\<rparr>)
     = emit (Log ''[socket] Reconnection already in progress, skipping'')
         (dropped_world\<lparr>reconnectionState := Reconnecting\<rparr>)
   \<and> scheduleReconnect env0 busy_world = busy_world
   \<and> reconnectAttempts (scheduleReconnect env0 dropped_world) = 1
   \<and> timers (scheduleReconnect env0 dropped_world) = [(4, Reconnect, 2250)]
   \<and> reconnectTimer (scheduleReconnect env0 dropped_world) = Some 4
   \<and> reconnectTimer (fire env0 4 (scheduleReconnect env0 dropped_world)) = None
   \<and> ws (fire env0 4 (scheduleReconnect env0 dropped_world)) = Some CONNECTING
   \<and> timers (scheduleReconnect env0 dropped5_world) = [(4, Reconnect, 30000)]
   \<and> reconnectionState (scheduleReconnect env0 exhausted_world) = Failed
   \<and> filter is_CallError (added exhausted_world (scheduleReconnect env0 exhausted_world))
        = [CallError 0 (ErrorObj ''WebSocket connection failed''),
           CallError 1 (ErrorObj ''WebSocket connection failed'')]
   \<and> timers (scheduleReconnect env0 exhausted_world) = []"
proof -
  have a: "scheduleReconnect env0 (dropped_world\<lparr>reconnectionState := Reconnecting\<rparr>)
     = emit (Log ''[socket] Reconnection already in progress, skipping'')
         (dropped_world\<lparr>reconnectionState := Reconnecting\<rparr>)"
    using scheduleReconnect_backoff [of "dropped_world\<lparr>reconnectionState := Reconnecting\<rparr>" env0]
    by simp
  have b: "scheduleReconnect env0 busy_world = busy_world"
    using scheduleReconnect_backoff [of busy_world env0]
    by (simp add: busy_world_def client0_def)
  have c: "reconnectAttempts (scheduleReconnect env0 dropped_world) = 1
   \<and> timers (scheduleReconnect env0 dropped_world) = [(4, Reconnect, 2250)]
   \<and> reconnectTimer (scheduleReconnect env0 dropped_world) = Some 4
   \<and> fire env0 4 (scheduleReconnect env0 dropped_world)
       = reopen env0 ((scheduleReconnect env0 dropped_world)\<lparr>timers := [], reconnectTimer := None\<rparr>)"
    using scheduleReconnect_backoff [of dropped_world env0 env0]
    by (simp add: demo_defs)
  have c': "ws (scheduleReconnect env0 dropped_world) = None"
    by (simp add: scheduleReconnect_armed demo_defs)
  have d: "reconnectTimer (fire env0 4 (scheduleReconnect env0 dropped_world)) = None
   \<and> ws (fire env0 4 (scheduleReconnect env0 dropped_world)) = Some CONNECTING"
    using c c' by (simp add: reopen_def openSocket_def emit_def Let_def env0_def)
  have f: "timers (scheduleReconnect env0 dropped5_world) = [(4, Reconnect, 30000)]"
    using scheduleReconnect_backoff [of dropped5_world env0]
    by (simp add: demo_defs)
  have g: "reconnectionState (scheduleReconnect env0 exhausted_world) = Failed
   \<and> filter is_CallError (added exhausted_world (scheduleReconnect env0 exhausted_world))
        = [CallError 0 (ErrorObj ''WebSocket connection failed''),
           CallError 1 (ErrorObj ''WebSocket connection failed'')]
   \<and> timers (scheduleReconnect env0 exhausted_world) = []"
    using scheduleReconnect_backoff [of exhausted_world env0]
    by (simp add: demo_defs)
  from a b c d f g show ?thesis by simp
qed

subsection \<open>Routing a reply to a single-response call\<close>

lemma onMessage_routed:
  assumes "\<not> nullish obj" and "get ''id'' obj = JStr m" and "m \<noteq> []"
    and "map_of (inflight w) m = Some a"
  shows "onMessage (Data obj) w =
     (case call_onReceived a (get ''response'' obj) w of
        (Normal, w') \<Rightarrow> w'
      | (Threw, w') \<Rightarrow> emit (Log ''[socket message parse error]'') w')"
  using assms by (simp add: onMessage_def)

lemma onMessage_reply:
  assumes "m \<noteq> []" and "map_of (inflight w) m = Some a"
  shows "onMessage (reply m p) w =
     (case call_onReceived a p w of
        (Normal, w') \<Rightarrow> w'
      | (Threw, w') \<Rightarrow> emit (Log ''[socket message parse error]'') w')"
  unfolding reply_def using assms by (subst onMessage_routed [of _ m w a]) simp_all

lemma ServiceCall_onReceived_success:
  assumes "heap w a = Some (Single c)" and "\<not> complete c" and "\<not> nullish p"
    and "\<not> truthy (errorToHandle p)"
  shows "ServiceCall_onReceived a p w =
     (Normal,
      w\<lparr>timers := (case timeoutId c of None \<Rightarrow> timers w
                    | Some t \<Rightarrow> filter (\<lambda>q. fst q \<noteq> t) (timers w)),
        heap := (heap w)(a \<mapsto> Single (c\<lparr>complete := True, timeoutId := None\<rparr>)),
        inflight := AList.delete (mid c) (inflight w),
        trace := trace w @ [CallSuccess a (get ''response'' p)]\<rparr>)"
  using assms
  by (cases "timeoutId c")
     (simp_all add: ServiceCall_onReceived_def clearTimeout_def emit_def Let_def)

lemma call_onReceived_Single:
  "heap w a = Some (Single c) \<Longrightarrow> call_onReceived a p w = ServiceCall_onReceived a p w"
  by (simp add: call_onReceived_def)

subsection \<open>Reconnect exhaustion and the in-flight table\<close>

text \<open>
  Claim C10. When \<open>scheduleReconnect\<close> finds the attempts used up, it invokes the error
  callback of every in-flight call, and that is all it does to them: the table and
  the call objects (so every completion flag) are as before. Hence a frame that arrives
  afterwards for a registered single-response call that is not complete is still
  dispatched to it; if the frame's payload carries no error, the success callback of
  that call runs, after its error callback has run.
\<close>

theorem failed_calls_stay_registered:
  assumes "reconnectionState w \<noteq> Reconnecting" and "reconnectTimer w = None"
    and "maxReconnectAttempts w < Suc (reconnectAttempts w)"
  shows "inflight (scheduleReconnect e w) = inflight w
     \<and> heap (scheduleReconnect e w) = heap w
     \<and> filter is_CallError (added w (scheduleReconnect e w))
         = map (\<lambda>p. CallError (snd p) (ErrorObj ''WebSocket connection failed'')) (inflight w)
     \<and> (\<forall>m a c p. m \<noteq> [] \<and> map_of (inflight w) m = Some a \<and> heap w a = Some (Single c)
            \<and> \<not> complete c \<and> \<not> nullish p \<and> \<not> truthy (errorToHandle p) \<longrightarrow>
          CallError a (ErrorObj ''WebSocket connection failed'')
            \<in> set (added w (scheduleReconnect e w))
          \<and> added (scheduleReconnect e w) (onMessage (reply m p) (scheduleReconnect e w))
              = [CallSuccess a (get ''response'' p)])"
proof -
  let ?w' = "scheduleReconnect e w"
  note eq = scheduleReconnect_exhausted [OF assms, of e]
  have i: "inflight ?w' = inflight w" and h: "heap ?w' = heap w"
    by (simp_all add: eq)
  have f: "filter is_CallError (added w ?w')
         = map (\<lambda>p. CallError (snd p) (ErrorObj ''WebSocket connection failed'')) (inflight w)"
    by (simp add: eq added_def)
  {
    fix m a c p
    assume m: "m \<noteq> []" and r: "map_of (inflight w) m = Some a"
      and c: "heap w a = Some (Single c)" "\<not> complete c"
      and p: "\<not> nullish p" "\<not> truthy (errorToHandle p)"
    from r have "(m, a) \<in> set (inflight w)" by (rule map_of_SomeD)
    then have "CallError a (ErrorObj ''WebSocket connection failed'')
       \<in> set (map (\<lambda>p. CallError (snd p) (ErrorObj ''WebSocket connection failed'')) (inflight w))"
      by force
    then have e1: "CallError a (ErrorObj ''WebSocket connection failed'') \<in> set (added w ?w')"
      by (simp add: eq added_def)
    have r': "map_of (inflight ?w') m = Some a" using r i by simp
    have c': "heap ?w' a = Some (Single c)" using c h by simp
    have "onMessage (reply m p) ?w' = snd (ServiceCall_onReceived a p ?w')"
      by (simp add: onMessage_reply [OF m r'] call_onReceived_Single [OF c']
          ServiceCall_onReceived_success [OF c' c(2) p])
    then have "added ?w' (onMessage (reply m p) ?w') = [CallSuccess a (get ''response'' p)]"
      by (simp add: ServiceCall_onReceived_success [OF c' c(2) p] added_def)
    with e1 have "CallError a (ErrorObj ''WebSocket connection failed'') \<in> set (added w ?w')
          \<and> added ?w' (onMessage (reply m p) ?w') = [CallSuccess a (get ''response'' p)]"
      by simp
  }
  with i h f show ?thesis by blast
qed

theorem failed_calls_stay_registered_witness:
  "inflight (scheduleReconnect env0 exhausted_world) = [(''tab-1'', 0), (''tab-2'', 1)]
   \<and> CallError 0 (ErrorObj ''WebSocket connection failed'')
        \<in> set (added exhausted_world (scheduleReconnect env0 exhausted_world))
   \<and> added (scheduleReconnect env0 exhausted_world)
        (onMessage (reply ''tab-1'' (JObj [(''response'', JStr ''ok'')]))
           (scheduleReconnect env0 exhausted_world))
       = [CallSuccess 0 (JStr ''ok'')]"
proof -
  have h: "reconnectionState exhausted_world \<noteq> Reconnecting"
    "reconnectTimer exhausted_world = None"
    "maxReconnectAttempts exhausted_world < Suc (reconnectAttempts exhausted_world)"
    by (simp_all add: demo_defs)
  note t = failed_calls_stay_registered [OF h, of env0]
  from t have a: "inflight (scheduleReconnect env0 exhausted_world) = [(''tab-1'', 0), (''tab-2'', 1)]"
    by (simp add: demo_defs)
  from t have q: "\<And>m a c p. m \<noteq> [] \<Longrightarrow> map_of (inflight exhausted_world) m = Some a \<Longrightarrow>
       heap exhausted_world a = Some (Single c) \<Longrightarrow> \<not> complete c \<Longrightarrow> \<not> nullish p \<Longrightarrow>
       \<not> truthy (errorToHandle p) \<Longrightarrow>
       CallError a (ErrorObj ''WebSocket connection failed'')
            \<in> set (added exhausted_world (scheduleReconnect env0 exhausted_world))
          \<and> added (scheduleReconnect env0 exhausted_world)
               (onMessage (reply m p) (scheduleReconnect env0 exhausted_world))
              = [CallSuccess a (get ''response'' p)]"
    by blast
  have "CallError 0 (ErrorObj ''WebSocket connection failed'')
            \<in> set (added exhausted_world (scheduleReconnect env0 exhausted_world))
          \<and> added (scheduleReconnect env0 exhausted_world)
               (onMessage (reply ''tab-1'' (JObj [(''response'', JStr ''ok'')]))
                  (scheduleReconnect env0 exhausted_world))
              = [CallSuccess 0 (get ''response'' (JObj [(''response'', JStr ''ok'')]))]"
    by (rule q [where c = "\<lparr>mid = ''tab-1'', msg = JNull, timeout = 10000, retries = 2,
                                 timeoutId = Some 1, complete = False\<rparr>"])
       (simp_all add: demo_defs errorToHandle_def)
  with a show ?thesis by simp
qed

subsection \<open>A request, its timeout and a late reply\<close>

lemmas request_defs = makeRequest_def getNextId_def ServiceCall_new_def ServiceCall_start_def
  ServiceCall_attempt_def ServiceCall_onTimeout_def ServiceCall_onReceived_def
  ServiceCall_retryNow_def call_attempt_def call_onTimeout_def call_onReceived_def
  fire_def onMessage_def reply_def envelope_def setTimeout_def clearTimeout_def emit_def
  calculateBackoff_def Math_pow2_def errorToHandle_def digit_char_def Let_def

lemma sent_world_eq:
  "sent_world =
     client0\<lparr>id_num := 2, inflight := [(''tab-1'', 0)],
       heap := [0 \<mapsto> Single \<lparr>mid = ''tab-1'',
                  msg = JObj [(''id'', JStr ''tab-1''), (''service'', JStr ''echo''),
                              (''request'', JObj [(''x'', JNum 1)])],
                  timeout = 10000, retries = 2, timeoutId = Some 1, complete = False\<rparr>],
       timers := [(1, OnTimeout 0, 10000)], nextHandle := 2, nextRef := 1,
       trace := [Sent (JObj [(''id'', JStr ''tab-1''), (''service'', JStr ''echo''),
                              (''request'', JObj [(''x'', JNum 1)])])]\<rparr>"
  by (simp add: sent_world_def request_defs client0_def env0_def)

lemma waiting_world_eq:
  "waiting_world =
     sent_world\<lparr>ws := Some CLOSING,
       heap := [0 \<mapsto> Single \<lparr>mid = ''tab-1'',
                  msg = JObj [(''id'', JStr ''tab-1''), (''service'', JStr ''echo''),
                              (''request'', JObj [(''x'', JNum 1)])],
                  timeout = 10000, retries = 1, timeoutId = Some 1, complete = False\<rparr>],
       timers := [(2, Attempt 0, 8500)], nextHandle := 3,
       trace := trace sent_world @ [Log ''timed out'', Log ''waiting for socket reconnection...'']\<rparr>"
  by (simp add: waiting_world_def sent_world_eq request_defs client0_def env0_def)

lemma done_world_eq:
  "done_world =
     waiting_world\<lparr>inflight := [],
       heap := [0 \<mapsto> Single \<lparr>mid = ''tab-1'',
                  msg = JObj [(''id'', JStr ''tab-1''), (''service'', JStr ''echo''),
                              (''request'', JObj [(''x'', JNum 1)])],
                  timeout = 10000, retries = 1, timeoutId = None, complete = True\<rparr>],
       trace := trace waiting_world @ [CallSuccess 0 (JStr ''late'')]\<rparr>"
  by (simp add: done_world_def waiting_world_eq sent_world_eq request_defs client0_def env0_def)

lemma stale_world_eq:
  "stale_world =
     done_world\<lparr>ws := Some OPEN,
       heap := [0 \<mapsto> Single \<lparr>mid = ''tab-1'',
                  msg = JObj [(''id'', JStr ''tab-1''), (''service'', JStr ''echo''),
                              (''request'', JObj [(''x'', JNum 1)])],
                  timeout = 10000, retries = 0, timeoutId = Some 3, complete = True\<rparr>],
       timers := [(3, OnTimeout 0, 10000)], nextHandle := 4,
       trace := trace done_world @
         [Log ''attempt should not be called, request is already complete'',
          Sent (JObj [(''id'', JStr ''tab-1''), (''service'', JStr ''echo''),
                      (''request'', JObj [(''x'', JNum 1)])])]\<rparr>"
  by (simp add: stale_world_def done_world_eq waiting_world_eq sent_world_eq request_defs
      client0_def env0_def)

text \<open>
  Claim C1 says that an attempt or a reply on a call whose completion flag is set changes
  nothing and invokes no callback. The code checks the flag in \<^verbatim>\<open>attempt\<close>,
  \<^verbatim>\<open>onTimeout\<close> and \<^verbatim>\<open>onReceived\<close>, but only to write a console line, and goes on.
  In \<open>done_world\<close> call 0 is complete (its success callback has run) while the
  backoff timer 2, whose handle was never stored in \<^verbatim>\<open>timeoutId\<close>, is still pending.
  When it fires, the call's retry counter drops from 1 to 0, the request is sent again and
  a new timeout timer is armed; when that one fires, the error callback runs after the
  success callback. A second \<^verbatim>\<open>onReceived\<close> on the completed call invokes the
  success callback a second time.
\<close>

theorem completed_call_attempted_again:
  "heap done_world 0
     = Some (Single \<lparr>mid = ''tab-1'',
          msg = JObj [(''id'', JStr ''tab-1''), (''service'', JStr ''echo''),
                      (''request'', JObj [(''x'', JNum 1)])],
          timeout = 10000, retries = 1, timeoutId = None, complete = True\<rparr>)
   \<and> timers done_world = [(2, Attempt 0, 8500)]
   \<and> heap stale_world 0
     = Some (Single \<lparr>mid = ''tab-1'',
          msg = JObj [(''id'', JStr ''tab-1''), (''service'', JStr ''echo''),
                      (''request'', JObj [(''x'', JNum 1)])],
          timeout = 10000, retries = 0, timeoutId = Some 3, complete = True\<rparr>)
   \<and> timers stale_world = [(3, OnTimeout 0, 10000)]
   \<and> added done_world stale_world
     = [Log ''attempt should not be called, request is already complete'',
        Sent (JObj [(''id'', JStr ''tab-1''), (''service'', JStr ''echo''),
                    (''request'', JObj [(''x'', JNum 1)])])]
   \<and> filter is_callback (trace (fire env0 3 stale_world))
     = [CallSuccess 0 (JStr ''late''), CallError 0 (ErrorStr ''Ran out of retries'')]
   \<and> added done_world (snd (ServiceCall_onReceived 0 (JObj [(''response'', JStr ''again'')]) done_world))
     = [Log ''should not happen, request is already complete'', CallSuccess 0 (JStr ''again'')]"
proof -
  have a: "heap done_world 0
     = Some (Single \<lparr>mid = ''tab-1'',
          msg = JObj [(''id'', JStr ''tab-1''), (''service'', JStr ''echo''),
                      (''request'', JObj [(''x'', JNum 1)])],
          timeout = 10000, retries = 1, timeoutId = None, complete = True\<rparr>)
   \<and> timers done_world = [(2, Attempt 0, 8500)]"
    by (simp add: done_world_eq waiting_world_eq)
  have b: "heap stale_world 0
     = Some (Single \<lparr>mid = ''tab-1'',
          msg = JObj [(''id'', JStr ''tab-1''), (''service'', JStr ''echo''),
                      (''request'', JObj [(''x'', JNum 1)])],
          timeout = 10000, retries = 0, timeoutId = Some 3, complete = True\<rparr>)
   \<and> timers stale_world = [(3, OnTimeout 0, 10000)]"
    by (simp add: stale_world_eq)
  have c: "added done_world stale_world
     = [Log ''attempt should not be called, request is already complete'',
        Sent (JObj [(''id'', JStr ''tab-1''), (''service'', JStr ''echo''),
                    (''request'', JObj [(''x'', JNum 1)])])]"
    by (simp add: stale_world_eq added_def)
  have d: "filter is_callback (trace (fire env0 3 stale_world))
     = [CallSuccess 0 (JStr ''late''), CallError 0 (ErrorStr ''Ran out of retries'')]"
    by (simp add: stale_world_eq done_world_eq waiting_world_eq sent_world_eq request_defs
        client0_def env0_def)
  have e: "added done_world (snd (ServiceCall_onReceived 0 (JObj [(''response'', JStr ''again'')]) done_world))
     = [Log ''should not happen, request is already complete'', CallSuccess 0 (JStr ''again'')]"
    by (simp add: done_world_eq waiting_world_eq sent_world_eq request_defs client0_def added_def)
  from a b c d e show ?thesis by blast
qed

subsection \<open>The open event\<close>

lemma onOpen_eq:
  "onOpen w =
     w\<lparr>reconnectAttempts := 0, reconnectionState := Idle, lastError := None,
       reconnectTimer := None,
       timers := (case reconnectTimer w of None \<Rightarrow> timers w
                  | Some h \<Rightarrow> filter (\<lambda>p. fst p \<noteq> h) (timers w)),
       trace := trace w @
         [Log ''[socket open]'',
          Notify (getConnectionState (w\<lparr>reconnectAttempts := 0, reconnectionState := Idle,
                                         lastError := None\<rparr>))]\<rparr>"
  by (cases "reconnectTimer w")
     (simp_all add: onOpen_def notifyStateChange_def clearTimeout_def emit_def Let_def
        getConnectionState_def)

text \<open>
  Claim C2 says that \<open>onOpen\<close> invokes \<^verbatim>\<open>retryNow\<close> on every in-flight call. It
  does reset the attempt counter, the reconnection state and the last error, cancel the
  reconnect timer and publish the snapshot; but that is all it does. For every world,
  the call objects, the in-flight table and the next timer handle are unchanged, the
  only timer removed is the reconnect timer, and the trace grows by the console line and
  the snapshot. With call 0 waiting for the socket (\<open>waiting_world\<close>, its backoff timer 2
  pending) the open event sends nothing and leaves timer 2 pending. And \<^verbatim>\<open>retryNow\<close>
  itself, called on that call, does not cancel the backoff timer 2: it clears the handle
  in \<^verbatim>\<open>timeoutId\<close>, where the waiting branch of \<^verbatim>\<open>attempt\<close> never stored it.
\<close>

theorem onOpen_retries_no_call:
  "reconnectAttempts (onOpen w) = 0
   \<and> reconnectionState (onOpen w) = Idle
   \<and> lastError (onOpen w) = None
   \<and> reconnectTimer (onOpen w) = None
   \<and> timers (onOpen w) = (case reconnectTimer w of None \<Rightarrow> timers w
                           | Some h \<Rightarrow> filter (\<lambda>p. fst p \<noteq> h) (timers w))
   \<and> added w (onOpen w) = [Log ''[socket open]'', Notify (getConnectionState (onOpen w))]
   \<and> heap (onOpen w) = heap w
   \<and> inflight (onOpen w) = inflight w
   \<and> nextHandle (onOpen w) = nextHandle w
   \<and> inflight (onOpen (waiting_world\<lparr>ws := Some OPEN\<rparr>)) = [(''tab-1'', 0)]
   \<and> timers (onOpen (waiting_world\<lparr>ws := Some OPEN\<rparr>)) = [(2, Attempt 0, 8500)]
   \<and> filter is_callback (added waiting_world (onOpen (waiting_world\<lparr>ws := Some OPEN\<rparr>))) = []
   \<and> timers (ServiceCall_retryNow env0 0 (waiting_world\<lparr>ws := Some OPEN\<rparr>))
       = [(2, Attempt 0, 8500), (3, OnTimeout 0, 10000)]"
proof -
  have a: "reconnectAttempts (onOpen w) = 0
   \<and> reconnectionState (onOpen w) = Idle
   \<and> lastError (onOpen w) = None
   \<and> reconnectTimer (onOpen w) = None
   \<and> timers (onOpen w) = (case reconnectTimer w of None \<Rightarrow> timers w
                           | Some h \<Rightarrow> filter (\<lambda>p. fst p \<noteq> h) (timers w))
   \<and> heap (onOpen w) = heap w
   \<and> inflight (onOpen w) = inflight w
   \<and> nextHandle (onOpen w) = nextHandle w"
    by (simp add: onOpen_eq)
  have b: "added w (onOpen w) = [Log ''[socket open]'', Notify (getConnectionState (onOpen w))]"
    by (simp add: onOpen_eq added_def getConnectionState_def Let_def)
  have c: "inflight (onOpen (waiting_world\<lparr>ws := Some OPEN\<rparr>)) = [(''tab-1'', 0)]
   \<and> timers (onOpen (waiting_world\<lparr>ws := Some OPEN\<rparr>)) = [(2, Attempt 0, 8500)]
   \<and> filter is_callback (added waiting_world (onOpen (waiting_world\<lparr>ws := Some OPEN\<rparr>))) = []"
    by (simp add: onOpen_eq waiting_world_eq sent_world_eq client0_def added_def)
  have d: "timers (ServiceCall_retryNow env0 0 (waiting_world\<lparr>ws := Some OPEN\<rparr>))
       = [(2, Attempt 0, 8500), (3, OnTimeout 0, 10000)]"
    by (simp add: waiting_world_eq sent_world_eq request_defs client0_def env0_def)
  from a b c d show ?thesis by blast
qed

subsection \<open>What the success callback receives\<close>

text \<open>
  Claim C4 says that the success callback receives the \<^verbatim>\<open>response\<close> field of the
  reply frame. \<open>onMessage\<close> already hands \<^verbatim>\<open>obj.response\<close> to \<^verbatim>\<open>onReceived\<close>,
  which reads \<^verbatim>\<open>.response\<close> of it once more. For the frame
  \<^verbatim>\<open>{id: "tab-1", response: {y: 2}}\<close> the call is deregistered and its timer cleared,
  and the success callback is invoked once, with \<^verbatim>\<open>undefined\<close>. It receives
  \<^verbatim>\<open>{y: 2}\<close> only from the frame \<^verbatim>\<open>{id: "tab-1", response: {response: {y: 2}}}\<close>.
\<close>

theorem reply_payload_is_unwrapped_twice:
  "added sent_world (onMessage (reply ''tab-1'' (JObj [(''y'', JNum 2)])) sent_world)
     = [CallSuccess 0 JUndefined]
   \<and> inflight (onMessage (reply ''tab-1'' (JObj [(''y'', JNum 2)])) sent_world) = []
   \<and> timers (onMessage (reply ''tab-1'' (JObj [(''y'', JNum 2)])) sent_world) = []
   \<and> added sent_world
        (onMessage (reply ''tab-1'' (JObj [(''response'', JObj [(''y'', JNum 2)])])) sent_world)
     = [CallSuccess 0 (JObj [(''y'', JNum 2)])]"
  by (simp add: sent_world_eq request_defs client0_def added_def)

subsection \<open>Call identifiers\<close>

lemma digit_char_inj:
  assumes "a < 10" and "b < 10" and "digit_char a = digit_char b"
  shows "a = b"
proof -
  have d: "distinct ''0123456789''" by simp
  have l: "length ''0123456789'' = 10" by simp
  from assms(3) have "''0123456789'' ! a = ''0123456789'' ! b" by (simp add: digit_char_def)
  with d assms(1,2) l show "a = b" by (metis nth_eq_iff_index_eq)
qed

lemma toString_nat_nonempty: "toString_nat n \<noteq> []"
  by (subst toString_nat.simps) simp

lemma toString_nat_small: "n < 10 \<Longrightarrow> toString_nat n = [digit_char n]"
  by (subst toString_nat.simps) simp

lemma toString_nat_large:
  "\<not> n < 10 \<Longrightarrow> toString_nat n = toString_nat (n div 10) @ [digit_char (n mod 10)]"
  by (subst toString_nat.simps) simp

lemma toString_nat_inj: "toString_nat a = toString_nat b \<Longrightarrow> a = b"
proof (induction a arbitrary: b rule: toString_nat.induct)
  case (1 n)
  show ?case
  proof (cases "n < 10")
    case small: True
    show ?thesis
    proof (cases "b < 10")
      case True
      with small "1.prems" show ?thesis
        by (simp add: toString_nat_small digit_char_inj)
    next
      case False
      with small "1.prems" toString_nat_nonempty [of "b div 10"] show ?thesis
        by (simp add: toString_nat_small toString_nat_large)
    qed
  next
    case large: False
    show ?thesis
    proof (cases "b < 10")
      case True
      with large "1.prems" toString_nat_nonempty [of "n div 10"] show ?thesis
        by (simp add: toString_nat_small toString_nat_large)
    next
      case False
      with large "1.prems" have q: "toString_nat (n div 10) = toString_nat (b div 10)"
        and r: "digit_char (n mod 10) = digit_char (b mod 10)"
        by (simp_all add: toString_nat_large)
      from "1.IH" [OF large q] have "n div 10 = b div 10" .
      moreover from r have "n mod 10 = b mod 10"
        by (intro digit_char_inj) simp_all
      ultimately show ?thesis by (metis div_mult_mod_eq)
    qed
  qed
qed


lemma ids_emit [simp]: "tag (emit ev w) = tag w \<and> id_num (emit ev w) = id_num w"
  by (simp add: emit_def)

lemma ids_setTimeout [simp]:
  "tag (snd (setTimeout f d w)) = tag w \<and> id_num (snd (setTimeout f d w)) = id_num w"
  by (simp add: setTimeout_def)

lemma ids_clearTimeout [simp]:
  "tag (clearTimeout h w) = tag w \<and> id_num (clearTimeout h w) = id_num w"
  by (simp add: clearTimeout_def split: option.splits)

lemma ids_scheduleReconnect [simp]:
  "tag (scheduleReconnect e w) = tag w \<and> id_num (scheduleReconnect e w) = id_num w"
  by (simp add: scheduleReconnect_def notifyStateChange_def fail_inflight_def Let_def
      split_def)

lemma ids_openSocket [simp]:
  "tag (openSocket e w) = tag w \<and> id_num (openSocket e w) = id_num w"
  by (simp add: openSocket_def Let_def)

lemma ids_reopen [simp]: "tag (reopen e w) = tag w \<and> id_num (reopen e w) = id_num w"
  by (simp add: reopen_def Let_def)

lemma ids_onOpen [simp]: "tag (onOpen w) = tag w \<and> id_num (onOpen w) = id_num w"
  by (simp add: onOpen_def notifyStateChange_def Let_def)

lemma ids_onClose [simp]: "tag (onClose e r w) = tag w \<and> id_num (onClose e r w) = id_num w"
  by (simp add: onClose_def notifyStateChange_def)

lemma ids_onError [simp]: "tag (onError w) = tag w \<and> id_num (onError w) = id_num w"
  by (simp add: onError_def notifyStateChange_def)

lemma ids_close [simp]: "tag (close w) = tag w \<and> id_num (close w) = id_num w"
  by (simp add: close_def fail_inflight_def Let_def)

lemma ids_ServiceCall_attempt [simp]:
  "tag (ServiceCall_attempt e a w) = tag w \<and> id_num (ServiceCall_attempt e a w) = id_num w"
  by (simp add: ServiceCall_attempt_def Let_def split_def split: option.splits call.splits)

lemma ids_ServiceCallMulti_attempt [simp]:
  "tag (ServiceCallMulti_attempt e a w) = tag w
   \<and> id_num (ServiceCallMulti_attempt e a w) = id_num w"
  by (simp add: ServiceCallMulti_attempt_def Let_def split_def split: option.splits call.splits)

lemma ids_ServiceCall_onTimeout [simp]:
  "tag (ServiceCall_onTimeout e a w) = tag w \<and> id_num (ServiceCall_onTimeout e a w) = id_num w"
  by (simp add: ServiceCall_onTimeout_def Let_def split: option.splits call.splits)

lemma ids_ServiceCallMulti_onTimeout [simp]:
  "tag (ServiceCallMulti_onTimeout e a w) = tag w
   \<and> id_num (ServiceCallMulti_onTimeout e a w) = id_num w"
  by (simp add: ServiceCallMulti_onTimeout_def Let_def split: option.splits call.splits)

lemma ids_ServiceCall_onReceived [simp]:
  "tag (snd (ServiceCall_onReceived a p w)) = tag w
   \<and> id_num (snd (ServiceCall_onReceived a p w)) = id_num w"
  by (simp add: ServiceCall_onReceived_def Let_def split: option.splits call.splits)

lemma ids_ServiceCallMulti_onReceived [simp]:
  "tag (snd (ServiceCallMulti_onReceived a p w)) = tag w
   \<and> id_num (snd (ServiceCallMulti_onReceived a p w)) = id_num w"
  by (simp add: ServiceCallMulti_onReceived_def Let_def split: option.splits call.splits)

lemma ids_fire [simp]: "tag (fire e h w) = tag w \<and> id_num (fire e h w) = id_num w"
  by (simp add: fire_def call_attempt_def call_onTimeout_def Let_def
      split: option.splits call.splits timer_fn.splits prod.splits)

lemma ids_onMessage [simp]: "tag (onMessage m w) = tag w \<and> id_num (onMessage m w) = id_num w"
proof -
  have "\<And>a p. tag (snd (call_onReceived a p w)) = tag w
      \<and> id_num (snd (call_onReceived a p w)) = id_num w"
    by (simp add: call_onReceived_def split: option.splits call.splits)
  then have "\<And>a p o' w'. call_onReceived a p w = (o', w') \<Longrightarrow> tag w' = tag w \<and> id_num w' = id_num w"
    by (metis snd_conv)
  then show ?thesis
    by (auto simp: onMessage_def split: message_data.splits option.splits prod.splits outcome.splits)
qed

lemma ids_makeRequest:
  "tag (snd (makeRequest e sv rq tmo rts fl w)) = tag w
   \<and> id_num (snd (makeRequest e sv rq tmo rts fl w)) = Suc (id_num w)"
  by (simp add: makeRequest_def getNextId_def ServiceCall_new_def ServiceCall_start_def Let_def)

lemma ids_makeRequestMulti:
  "tag (snd (makeRequestMulti e sv rq f tmo rts fl w)) = tag w
   \<and> id_num (snd (makeRequestMulti e sv rq f tmo rts fl w)) = Suc (id_num w)"
  by (simp add: makeRequestMulti_def getNextId_def ServiceCallMulti_new_def
      ServiceCallMulti_start_def Let_def)

lemma ids_step:
  "tag (step e act w) = tag w
   \<and> id_num (step e act w) = (if is_request act then Suc (id_num w) else id_num w)"
  by (cases act) (simp_all add: ids_makeRequest ids_makeRequestMulti)

lemma ids_issued_eq:
  "ids_issued acts w =
     map (\<lambda>k. tag w @ ''-'' @ toString_nat k)
       [id_num w ..< id_num w + length (filter (\<lambda>p. is_request (snd p)) acts)]"
proof (induction acts arbitrary: w)
  case Nil
  show ?case by simp
next
  case (Cons p acts)
  obtain e act where p: "p = (e, act)" by (cases p)
  show ?case
  proof (cases "is_request act")
    case True
    let ?n = "length (filter (\<lambda>p. is_request (snd p)) acts)"
    have "[id_num w ..< id_num w + Suc ?n] = id_num w # [Suc (id_num w) ..< Suc (id_num w) + ?n]"
      by (simp del: upt_Suc add: upt_conv_Cons)
    with True show ?thesis
      by (simp del: upt_Suc add: p Cons.IH ids_step getNextId_def)
  next
    case False
    then show ?thesis
      by (simp add: p Cons.IH ids_step)
  qed
qed

text \<open>
  Claim C8. Over any run of a client, whatever happens between the requests, the
  identifiers \<open>getNextId\<close> returns are pairwise different. Each is the tag, a hyphen
  and the decimal counter; the tag is the one given at construction and never changes;
  the counter starts at 1 and goes up by one with each identifier issued. (The counter
  is a natural number here; the JavaScript number counts exactly up to \<open>2 ^ 53\<close>.)
\<close>

theorem issued_ids_unique:
  "distinct (ids_issued acts w)
   \<and> ids_issued acts w =
       map (\<lambda>k. tag w @ ''-'' @ toString_nat k)
         [id_num w ..< id_num w + length (filter (\<lambda>p. is_request (snd p)) acts)]
   \<and> tag (fold (\<lambda>p. step (fst p) (snd p)) acts w) = tag w
   \<and> tag (BaseApi_new e t u tok) = t
   \<and> id_num (BaseApi_new e t u tok) = 1"
proof -
  have "inj_on (\<lambda>k. tag w @ ''-'' @ toString_nat k) A" for A
    by (rule inj_onI) (simp add: toString_nat_inj)
  then have a: "distinct (ids_issued acts w)"
    by (simp add: ids_issued_eq distinct_map)
  have b: "tag (fold (\<lambda>p. step (fst p) (snd p)) acts w) = tag w"
    by (induction acts arbitrary: w) (simp_all add: ids_step)
  have c: "tag (BaseApi_new e t u tok) = t \<and> id_num (BaseApi_new e t u tok) = 1"
    by (simp add: BaseApi_new_def)
  from a b c ids_issued_eq [of acts w] show ?thesis by simp
qed

theorem issued_ids_unique_witness:
  "ids_issued
     [(env0, Request ''echo'' JNull None None None),
      (env0, Message (reply ''tab-1'' (JObj [(''response'', JStr ''ok'')]))),
      (env0, RequestMulti ''agent'' JNull (\<lambda>p. True) None None None),
      (env0, Request ''echo'' JNull None (Some 0) None)] client0
     = [''tab-1'', ''tab-2'', ''tab-3'']
   \<and> distinct [''tab-1'', ''tab-2'', ''tab-3'']"
proof -
  let ?acts = "[(env0, Request ''echo'' JNull None None None),
      (env0, Message (reply ''tab-1'' (JObj [(''response'', JStr ''ok'')]))),
      (env0, RequestMulti ''agent'' JNull (\<lambda>p. True) None None None),
      (env0, Request ''echo'' JNull None (Some 0) None)]"
  note t = issued_ids_unique [of ?acts client0]
  from t have a: "ids_issued ?acts client0 = [''tab-1'', ''tab-2'', ''tab-3'']"
    by (simp add: client0_def toString_nat_small digit_char_def upt_rec [of 1] upt_rec [of 2]
        upt_rec [of 3])
  from t have "distinct (ids_issued ?acts client0)" by blast
  with a show ?thesis by simp
qed

subsection \<open>Streaming calls\<close>

lemma bears_not_nullish: "bears m obj \<Longrightarrow> \<not> nullish obj"
  by (cases obj) (simp_all add: bears_def)

lemma onMessage_bears:
  assumes "bears m obj"
  shows "onMessage (Data obj) w =
     (case map_of (inflight w) m of
        Some a \<Rightarrow>
          (case call_onReceived a (get ''response'' obj) w of
             (Normal, w') \<Rightarrow> w'
           | (Threw, w') \<Rightarrow> emit (Log ''[socket message parse error]'') w')
      | None \<Rightarrow>
          if m \<in> set Object_prototype_keys
          then emit (Log ''[socket message parse error]'') w else w)"
  using assms bears_not_nullish [OF assms] by (simp add: onMessage_def bears_def)

lemma ServiceCallMulti_onReceived_more:
  assumes "heap w a = Some (Multi c)" and "\<not> complete c" and "\<not> receiver c p"
  shows "ServiceCallMulti_onReceived a p w = (Normal, emit (CallReceiver a p) w)"
  using assms by (simp add: ServiceCallMulti_onReceived_def Let_def)

lemma ServiceCallMulti_onReceived_final:
  assumes "heap w a = Some (Multi c)" and "\<not> complete c" and "receiver c p"
  shows "ServiceCallMulti_onReceived a p w =
     (Normal,
      w\<lparr>timers := (case timeoutId c of None \<Rightarrow> timers w
                    | Some t \<Rightarrow> filter (\<lambda>q. fst q \<noteq> t) (timers w)),
        heap := (heap w)(a \<mapsto> Multi (c\<lparr>complete := True, timeoutId := None\<rparr>)),
        inflight := AList.delete (mid c) (inflight w),
        trace := trace w @ [CallReceiver a p, CallSuccess a p]\<rparr>)"
  using assms
  by (cases "timeoutId c")
     (simp_all add: ServiceCallMulti_onReceived_def clearTimeout_def emit_def Let_def)

lemma call_onReceived_Multi:
  "heap w a = Some (Multi c) \<Longrightarrow> call_onReceived a p w = ServiceCallMulti_onReceived a p w"
  by (simp add: call_onReceived_def)

lemma deliver_unrouted:
  assumes "map_of (inflight w) m = None" and "list_all (bears m) fs"
  shows "inflight (deliver fs w) = inflight w \<and> timers (deliver fs w) = timers w
     \<and> heap (deliver fs w) = heap w
     \<and> (\<exists>n. trace (deliver fs w) = trace w @ replicate n (Log ''[socket message parse error]''))"
  using assms
proof (induction fs arbitrary: w)
  case Nil
  show ?case by (simp add: deliver_def)
next
  case (Cons obj fs)
  from Cons.prems have b: "bears m obj" and r: "list_all (bears m) fs" by simp_all
  let ?w1 = "onMessage (Data obj) w"
  have s: "?w1 = w \<or> ?w1 = emit (Log ''[socket message parse error]'') w"
    using Cons.prems(1) by (simp add: onMessage_bears [OF b])
  then have i: "map_of (inflight ?w1) m = None"
    using Cons.prems(1) by (auto simp: emit_def)
  note ih = Cons.IH [OF i r]
  have d: "deliver (obj # fs) w = deliver fs ?w1" by (simp add: deliver_def)
  from s show ?case
  proof
    assume "?w1 = w"
    with ih d show ?thesis by simp
  next
    assume e: "?w1 = emit (Log ''[socket message parse error]'') w"
    from ih obtain n where
      n: "trace (deliver fs ?w1) = trace ?w1 @ replicate n (Log ''[socket message parse error]'')"
      by blast
    have "trace (deliver fs ?w1) = trace w @ replicate (Suc n) (Log ''[socket message parse error]'')"
      using n e by (simp add: emit_def)
    then have "\<exists>k. trace (deliver (obj # fs) w) = trace w @ replicate k (Log ''[socket message parse error]'')"
      unfolding d by blast
    with ih d e show ?thesis by (simp add: emit_def)
  qed
qed


lemma map_of_delete_same: "map_of (AList.delete k al) k = None"
  by (simp add: AList.delete_eq map_of_eq_None_iff image_iff)

lemma filter_callback_replicate_Log [simp]: "filter is_callback (replicate n (Log s)) = []"
  by (induction n) simp_all

lemma stream_delivery_aux:
  assumes "map_of (inflight w) m = Some a" and "heap w a = Some (Multi c)" and "mid c = m"
    and "\<not> complete c" and "list_all (bears m) fs"
  shows "\<exists>xs. trace (deliver fs w) = trace w @ xs
     \<and> filter is_callback xs = stream_events a (receiver c) (map (get ''response'') fs)
     \<and> (list_all (\<lambda>f. \<not> receiver c (get ''response'' f)) fs \<longrightarrow>
          inflight (deliver fs w) = inflight w \<and> timers (deliver fs w) = timers w
          \<and> heap (deliver fs w) = heap w)
     \<and> (\<not> list_all (\<lambda>f. \<not> receiver c (get ''response'' f)) fs \<longrightarrow>
          map_of (inflight (deliver fs w)) m = None
          \<and> heap (deliver fs w) a = Some (Multi (c\<lparr>complete := True, timeoutId := None\<rparr>))
          \<and> timers (deliver fs w) = (case timeoutId c of None \<Rightarrow> timers w
                                      | Some t \<Rightarrow> filter (\<lambda>q. fst q \<noteq> t) (timers w)))"
  using assms
proof (induction fs arbitrary: w)
  case Nil
  show ?case by (simp add: deliver_def)
next
  case (Cons obj fs)
  from Cons.prems have b: "bears m obj" and r: "list_all (bears m) fs" by simp_all
  let ?p = "get ''response'' obj"
  let ?w1 = "onMessage (Data obj) w"
  have d: "deliver (obj # fs) w = deliver fs ?w1" by (simp add: deliver_def)
  have o: "?w1 = snd (ServiceCallMulti_onReceived a ?p w)"
    using Cons.prems(1,2,4)
    by (cases "receiver c ?p")
       (simp_all add: onMessage_bears [OF b] call_onReceived_Multi [OF Cons.prems(2)]
          ServiceCallMulti_onReceived_more ServiceCallMulti_onReceived_final)
  show ?case
  proof (cases "receiver c ?p")
    case False
    have w1: "?w1 = emit (CallReceiver a ?p) w"
      using o by (simp add: ServiceCallMulti_onReceived_more [OF Cons.prems(2,4) False])
    have "map_of (inflight ?w1) m = Some a" "heap ?w1 a = Some (Multi c)"
      using Cons.prems(1,2) by (simp_all add: w1 emit_def)
    from Cons.IH [OF this Cons.prems(3,4) r] obtain xs where
      xs: "trace (deliver fs ?w1) = trace ?w1 @ xs"
        "filter is_callback xs = stream_events a (receiver c) (map (get ''response'') fs)"
        "list_all (\<lambda>f. \<not> receiver c (get ''response'' f)) fs \<longrightarrow>
          inflight (deliver fs ?w1) = inflight ?w1 \<and> timers (deliver fs ?w1) = timers ?w1
          \<and> heap (deliver fs ?w1) = heap ?w1"
        "\<not> list_all (\<lambda>f. \<not> receiver c (get ''response'' f)) fs \<longrightarrow>
          map_of (inflight (deliver fs ?w1)) m = None
          \<and> heap (deliver fs ?w1) a = Some (Multi (c\<lparr>complete := True, timeoutId := None\<rparr>))
          \<and> timers (deliver fs ?w1) = (case timeoutId c of None \<Rightarrow> timers ?w1
                                      | Some t \<Rightarrow> filter (\<lambda>q. fst q \<noteq> t) (timers ?w1))"
      by blast
    have f: "inflight ?w1 = inflight w" "timers ?w1 = timers w" "heap ?w1 = heap w"
      "trace ?w1 = trace w @ [CallReceiver a ?p]"
      by (simp_all add: w1 emit_def)
    have "trace (deliver (obj # fs) w) = trace w @ (CallReceiver a ?p # xs)"
      using xs(1) f(4) d by simp
    moreover have "filter is_callback (CallReceiver a ?p # xs)
        = stream_events a (receiver c) (map (get ''response'') (obj # fs))"
      using xs(2) False by simp
    ultimately show ?thesis
      using xs(3,4) f(1,2,3) False d
      by (intro exI [of _ "CallReceiver a ?p # xs"]) (simp cong: option.case_cong)
  next
    case True
    have w1: "?w1 =
      w\<lparr>timers := (case timeoutId c of None \<Rightarrow> timers w
                    | Some t \<Rightarrow> filter (\<lambda>q. fst q \<noteq> t) (timers w)),
        heap := (heap w)(a \<mapsto> Multi (c\<lparr>complete := True, timeoutId := None\<rparr>)),
        inflight := AList.delete (mid c) (inflight w),
        trace := trace w @ [CallReceiver a ?p, CallSuccess a ?p]\<rparr>"
      using o by (simp add: ServiceCallMulti_onReceived_final [OF Cons.prems(2,4) True])
    have "map_of (inflight ?w1) m = None"
      using Cons.prems(3) by (simp add: w1 map_of_delete_same)
    from deliver_unrouted [OF this r] obtain n where
      u: "inflight (deliver fs ?w1) = inflight ?w1" "timers (deliver fs ?w1) = timers ?w1"
        "heap (deliver fs ?w1) = heap ?w1"
        "trace (deliver fs ?w1) = trace ?w1 @ replicate n (Log ''[socket message parse error]'')"
      by blast
    let ?xs = "[CallReceiver a ?p, CallSuccess a ?p] @ replicate n (Log ''[socket message parse error]'')"
    have "trace (deliver (obj # fs) w) = trace w @ ?xs"
      using u(4) d by (simp add: w1)
    moreover have "filter is_callback ?xs
        = stream_events a (receiver c) (map (get ''response'') (obj # fs))"
      using True by simp
    moreover have "map_of (inflight (deliver (obj # fs) w)) m = None"
      using u(1) Cons.prems(3) d by (simp add: w1 map_of_delete_same)
    moreover have "heap (deliver (obj # fs) w) a = Some (Multi (c\<lparr>complete := True, timeoutId := None\<rparr>))"
      using u(3) d by (simp add: w1)
    moreover have "timers (deliver (obj # fs) w) = (case timeoutId c of None \<Rightarrow> timers w
                                      | Some t \<Rightarrow> filter (\<lambda>q. fst q \<noteq> t) (timers w))"
      using u(2) d by (simp add: w1)
    ultimately show ?thesis
      using True by (intro exI [of _ ?xs]) simp
  qed
qed

text \<open>
  What holds for every multi-response call that is registered and not complete, and any
  sequence of frames bearing its identifier. The callbacks the frames cause are exactly
  \<open>stream_events\<close>: the receiver is invoked with each frame's payload, once per frame and
  in arrival order, up to and including the first payload it accepts; the success
  callback is invoked then, with that payload; later frames cause no callback. As long
  as the receiver accepts nothing, table, timers and call objects are unchanged (the
  call stays registered and its timer is not reset). Once it has accepted a payload, the
  call is deregistered and marked complete, and the timer whose handle is stored in
  \<^verbatim>\<open>timeoutId\<close> is removed. A timer of the call whose handle is not stored there
  stays pending; the next subsection has such a run.
\<close>

theorem stream_delivery:
  assumes "map_of (inflight w) m = Some a" and "heap w a = Some (Multi c)" and "mid c = m"
    and "\<not> complete c" and "list_all (bears m) fs"
  shows "filter is_callback (added w (deliver fs w))
       = stream_events a (receiver c) (map (get ''response'') fs)
     \<and> (list_all (\<lambda>f. \<not> receiver c (get ''response'' f)) fs \<longrightarrow>
          inflight (deliver fs w) = inflight w \<and> timers (deliver fs w) = timers w
          \<and> heap (deliver fs w) = heap w)
     \<and> (\<not> list_all (\<lambda>f. \<not> receiver c (get ''response'' f)) fs \<longrightarrow>
          map_of (inflight (deliver fs w)) m = None
          \<and> heap (deliver fs w) a = Some (Multi (c\<lparr>complete := True, timeoutId := None\<rparr>))
          \<and> timers (deliver fs w) = (case timeoutId c of None \<Rightarrow> timers w
                                      | Some t \<Rightarrow> filter (\<lambda>q. fst q \<noteq> t) (timers w)))"
proof -
  from stream_delivery_aux [OF assms] obtain xs where
    xs: "trace (deliver fs w) = trace w @ xs"
      "filter is_callback xs = stream_events a (receiver c) (map (get ''response'') fs)"
    and rest: "list_all (\<lambda>f. \<not> receiver c (get ''response'' f)) fs \<longrightarrow>
          inflight (deliver fs w) = inflight w \<and> timers (deliver fs w) = timers w
          \<and> heap (deliver fs w) = heap w"
      "\<not> list_all (\<lambda>f. \<not> receiver c (get ''response'' f)) fs \<longrightarrow>
          map_of (inflight (deliver fs w)) m = None
          \<and> heap (deliver fs w) a = Some (Multi (c\<lparr>complete := True, timeoutId := None\<rparr>))
          \<and> timers (deliver fs w) = (case timeoutId c of None \<Rightarrow> timers w
                                      | Some t \<Rightarrow> filter (\<lambda>q. fst q \<noteq> t) (timers w))"
    by blast
  from xs have "filter is_callback (added w (deliver fs w))
       = stream_events a (receiver c) (map (get ''response'') fs)"
    by (simp add: added_def)
  with rest show ?thesis by blast
qed

lemma stream_world_eq:
  "stream_world =
     client0\<lparr>id_num := 2, inflight := [(''tab-1'', 0)],
       heap := [0 \<mapsto> Multi \<lparr>mid = ''tab-1'',
                  msg = JObj [(''id'', JStr ''tab-1''), (''service'', JStr ''agent''),
                              (''request'', JObj [(''question'', JStr ''q'')])],
                  timeout = 10000, retries = 2, timeoutId = Some 1, complete = False,
                  receiver = (\<lambda>p. truthy (get ''done'' p))\<rparr>],
       timers := [(1, OnTimeout 0, 10000)], nextHandle := 2, nextRef := 1,
       trace := [Sent (JObj [(''id'', JStr ''tab-1''), (''service'', JStr ''agent''),
                              (''request'', JObj [(''question'', JStr ''q'')])])]\<rparr>"
  by (simp add: stream_world_def makeRequestMulti_def getNextId_def ServiceCallMulti_new_def
      ServiceCallMulti_start_def ServiceCallMulti_attempt_def envelope_def setTimeout_def
      emit_def client0_def env0_def digit_char_def Let_def)

theorem stream_delivery_witness:
  "filter is_callback
     (added stream_world
        (deliver [JObj [(''id'', JStr ''tab-1''), (''response'', JObj [(''done'', JBool False)])],
                  JObj [(''id'', JStr ''tab-1''), (''response'', JObj [(''done'', JBool False)])],
                  JObj [(''id'', JStr ''tab-1''), (''response'', JObj [(''done'', JBool True)])],
                  JObj [(''id'', JStr ''tab-1''), (''response'', JObj [(''done'', JBool True)])]]
           stream_world))
     = [CallReceiver 0 (JObj [(''done'', JBool False)]),
        CallReceiver 0 (JObj [(''done'', JBool False)]),
        CallReceiver 0 (JObj [(''done'', JBool True)]),
        CallSuccess 0 (JObj [(''done'', JBool True)])]
   \<and> inflight (deliver [JObj [(''id'', JStr ''tab-1''), (''response'', JObj [(''done'', JBool False)])]]
                  stream_world) = [(''tab-1'', 0)]
   \<and> timers (deliver [JObj [(''id'', JStr ''tab-1''), (''response'', JObj [(''done'', JBool False)])]]
                  stream_world) = [(1, OnTimeout 0, 10000)]"
proof -
  let ?c = "\<lparr>mid = ''tab-1'',
                  msg = JObj [(''id'', JStr ''tab-1''), (''service'', JStr ''agent''),
                              (''request'', JObj [(''question'', JStr ''q'')])],
                  timeout = 10000, retries = 2, timeoutId = Some 1, complete = False,
                  receiver = (\<lambda>p. truthy (get ''done'' p))\<rparr>"
  have h: "map_of (inflight stream_world) ''tab-1'' = Some 0"
    "heap stream_world 0 = Some (Multi ?c)" "mid ?c = ''tab-1''" "\<not> complete ?c"
    by (simp_all add: stream_world_eq client0_def)
  have b4: "list_all (bears ''tab-1'')
       [JObj [(''id'', JStr ''tab-1''), (''response'', JObj [(''done'', JBool False)])],
        JObj [(''id'', JStr ''tab-1''), (''response'', JObj [(''done'', JBool False)])],
        JObj [(''id'', JStr ''tab-1''), (''response'', JObj [(''done'', JBool True)])],
        JObj [(''id'', JStr ''tab-1''), (''response'', JObj [(''done'', JBool True)])]]"
    by (simp add: bears_def)
  have b1: "list_all (bears ''tab-1'')
       [JObj [(''id'', JStr ''tab-1''), (''response'', JObj [(''done'', JBool False)])]]"
    by (simp add: bears_def)
  from stream_delivery [OF h b4] have a: "filter is_callback
     (added stream_world
        (deliver [JObj [(''id'', JStr ''tab-1''), (''response'', JObj [(''done'', JBool False)])],
                  JObj [(''id'', JStr ''tab-1''), (''response'', JObj [(''done'', JBool False)])],
                  JObj [(''id'', JStr ''tab-1''), (''response'', JObj [(''done'', JBool True)])],
                  JObj [(''id'', JStr ''tab-1''), (''response'', JObj [(''done'', JBool True)])]]
           stream_world))
     = [CallReceiver 0 (JObj [(''done'', JBool False)]),
        CallReceiver 0 (JObj [(''done'', JBool False)]),
        CallReceiver 0 (JObj [(''done'', JBool True)]),
        CallSuccess 0 (JObj [(''done'', JBool True)])]"
    by simp
  from stream_delivery [OF h b1] have b: "inflight (deliver [JObj [(''id'', JStr ''tab-1''), (''response'', JObj [(''done'', JBool False)])]]
                  stream_world) = [(''tab-1'', 0)]
   \<and> timers (deliver [JObj [(''id'', JStr ''tab-1''), (''response'', JObj [(''done'', JBool False)])]]
                  stream_world) = [(1, OnTimeout 0, 10000)]"
    by (simp add: stream_world_eq client0_def)
  from a b show ?thesis by blast
qed

subsection \<open>The end of a stream and the call's timers\<close>

lemmas run_defs = run_def makeRequestMulti_def getNextId_def ServiceCallMulti_new_def
  ServiceCallMulti_start_def ServiceCallMulti_attempt_def ServiceCallMulti_onTimeout_def
  ServiceCallMulti_onReceived_def call_attempt_def call_onTimeout_def call_onReceived_def
  fire_def onMessage_def onOpen_def onClose_def scheduleReconnect_def openSocket_def reopen_def
  notifyStateChange_def getConnectionState_def BaseApi_new_def
  reply_def envelope_def setTimeout_def clearTimeout_def emit_def
  calculateBackoff_def Math_pow2_def digit_char_def env0_def Let_def

lemma stream_ended_world_eq:
  "stream_ended_world =
     \<lparr>ws = Some OPEN, tag = ''tab'', id_num = 2, token = None, user = ''u'', inflight = [],
      reconnectAttempts = 0, maxReconnectAttempts = 10, reconnectTimer = None,
      reconnectionState = Idle, lastError = None,
      heap = [0 \<mapsto> Multi \<lparr>mid = ''tab-1'',
                  msg = JObj [(''id'', JStr ''tab-1''), (''service'', JStr ''agent''),
                              (''request'', JObj [(''question'', JStr ''q'')])],
                  timeout = 10000, retries = 1, timeoutId = None, complete = True,
                  receiver = (\<lambda>p. truthy (get ''done'' p))\<rparr>],
      timers = [(3, Attempt 0, 500)], nextHandle = 4, nextRef = 1,
      trace =
        [Log ''SOCKET: opening socket...'', Log ''SOCKET: connecting to'', AddListeners,
         Log ''SOCKET: socket opened'', Log ''[socket open]'',
         Notify \<lparr>status = S_unauthenticated, hasApiKey = False, reconnectAttempt = None,
                  maxAttempts = None, lastError_s = None\<rparr>,
         Sent (JObj [(''id'', JStr ''tab-1''), (''service'', JStr ''agent''),
                     (''request'', JObj [(''question'', JStr ''q'')])]),
         Log ''[socket close]'',
         Notify \<lparr>status = S_connecting, hasApiKey = False, reconnectAttempt = None,
                  maxAttempts = None, lastError_s = Some ''Connection closed: gone''\<rparr>,
         Notify \<lparr>status = S_reconnecting, hasApiKey = False, reconnectAttempt = Some 1,
                  maxAttempts = Some 10, lastError_s = Some ''Connection closed: gone''\<rparr>,
         Log ''[socket] Reconnecting'', Log ''[socket reopen]'', Log ''SOCKET: connecting to'',
         AddListeners, Log ''timed out'', Log ''[socket open]'',
         Notify \<lparr>status = S_unauthenticated, hasApiKey = False, reconnectAttempt = None,
                  maxAttempts = None, lastError_s = None\<rparr>,
         CallReceiver 0 (JObj [(''done'', JBool True)]),
         CallSuccess 0 (JObj [(''done'', JBool True)])]\<rparr>"
  by (simp add: stream_ended_world_def run_defs)

text \<open>
  Claim C5 says that on the first frame its receiver accepts, a multi-response call
  reaches its terminal state with its timer cleared. \<^verbatim>\<open>onReceived\<close> clears the
  handle in \<^verbatim>\<open>timeoutId\<close>, and the branches of \<^verbatim>\<open>attempt\<close> for a socket that is not
  open arm their timer without storing the handle (the branch for a failed send stores
  it). In \<open>stream_ended_world\<close>, reached from the constructor by socket events, one
  request, two timers and one frame, the receiver has accepted the frame, the success
  callback has run, and the call is complete and deregistered; but its 500 ms timer 3
  is still pending. When it fires, the completed call sends its request again and arms a
  timeout, and when that fires the error callback runs after the success callback.
\<close>

theorem ended_stream_keeps_a_timer:
  "map_option shared_fields (heap stream_ended_world 0)
     = Some \<lparr>mid = ''tab-1'',
          msg = JObj [(''id'', JStr ''tab-1''), (''service'', JStr ''agent''),
                      (''request'', JObj [(''question'', JStr ''q'')])],
          timeout = 10000, retries = 1, timeoutId = None, complete = True\<rparr>
   \<and> inflight stream_ended_world = []
   \<and> filter is_callback (trace stream_ended_world)
       = [CallReceiver 0 (JObj [(''done'', JBool True)]),
          CallSuccess 0 (JObj [(''done'', JBool True)])]
   \<and> timers stream_ended_world = [(3, Attempt 0, 500)]
   \<and> next_timer 0 stream_ended_world = Some (3, Attempt 0, 500)
   \<and> timers (run [(env0, Timer 3)] stream_ended_world) = [(4, OnTimeout 0, 10000)]
   \<and> filter is_callback (trace (run [(env0, Timer 3), (env0, Timer 4)] stream_ended_world))
       = [CallReceiver 0 (JObj [(''done'', JBool True)]),
          CallSuccess 0 (JObj [(''done'', JBool True)]),
          CallError 0 (ErrorStr ''Ran out of retries'')]"
proof -
  have a: "map_option shared_fields (heap stream_ended_world 0)
     = Some \<lparr>mid = ''tab-1'',
          msg = JObj [(''id'', JStr ''tab-1''), (''service'', JStr ''agent''),
                      (''request'', JObj [(''question'', JStr ''q'')])],
          timeout = 10000, retries = 1, timeoutId = None, complete = True\<rparr>
   \<and> inflight stream_ended_world = []
   \<and> filter is_callback (trace stream_ended_world)
       = [CallReceiver 0 (JObj [(''done'', JBool True)]),
          CallSuccess 0 (JObj [(''done'', JBool True)])]
   \<and> timers stream_ended_world = [(3, Attempt 0, 500)]
   \<and> next_timer 0 stream_ended_world = Some (3, Attempt 0, 500)"
    by (simp add: stream_ended_world_eq next_timer_def)
  have b: "timers (run [(env0, Timer 3)] stream_ended_world) = [(4, OnTimeout 0, 10000)]"
    by (simp add: stream_ended_world_eq run_defs)
  have c: "filter is_callback (trace (run [(env0, Timer 3), (env0, Timer 4)] stream_ended_world))
       = [CallReceiver 0 (JObj [(''done'', JBool True)]),
          CallSuccess 0 (JObj [(''done'', JBool True)]),
          CallError 0 (ErrorStr ''Ran out of retries'')]"
    by (simp add: stream_ended_world_eq run_defs)
  from a b c show ?thesis by blast
qed

subsection \<open>A call that is never answered\<close>

lemma ServiceCall_attempt_waits:
  assumes "heap w a = Some (Single c)" and "\<not> complete c" and "0 < retries c"
    and "ws w \<noteq> Some OPEN"
  shows "ServiceCall_attempt e a w =
     w\<lparr>heap := (heap w)(a \<mapsto> Single (c\<lparr>retries := retries c - 1\<rparr>)),
       timers := timers w @
         [(nextHandle w, Attempt a, calculateBackoff (retries c - 1) (rnd_backoff e))],
       nextHandle := Suc (nextHandle w),
       trace := trace w @ [Log ''waiting for socket reconnection...'']\<rparr>"
  using assms by (simp add: ServiceCall_attempt_def setTimeout_def emit_def Let_def)

lemma ServiceCall_attempt_exhausts:
  assumes "heap w a = Some (Single c)" and "\<not> complete c" and "retries c \<le> 0"
    and "timeoutId c = None"
  shows "ServiceCall_attempt e a w =
     w\<lparr>heap := (heap w)(a \<mapsto> Single (c\<lparr>retries := retries c - 1\<rparr>)),
       inflight := AList.delete (mid c) (inflight w),
       trace := trace w @
         [Log ''ran out of retries'', CallError a (ErrorStr ''Ran out of retries'')]\<rparr>"
  using assms by (simp add: ServiceCall_attempt_def clearTimeout_def emit_def Let_def)

lemma find_none: "list_all (\<lambda>p. \<not> P p) xs \<Longrightarrow> find P xs = None"
  by (induction xs) auto

lemma find_last: "list_all (\<lambda>p. \<not> P p) xs \<Longrightarrow> P x \<Longrightarrow> find P (xs @ [x]) = Some x"
  by (induction xs) auto

lemma start_waits:
  assumes "0 < r" and "ws w \<noteq> Some OPEN"
  shows "ServiceCall_start e (nextRef w) (snd (ServiceCall_new m ms t r w))
     = waiting_state w m ms t r 0 e"
proof -
  let ?c = "\<lparr>mid = m, msg = ms, timeout = t, retries = r, timeoutId = None, complete = False\<rparr>"
  let ?w1 = "w\<lparr>heap := (heap w)(nextRef w \<mapsto> Single ?c), nextRef := Suc (nextRef w),
               inflight := AList.update m (nextRef w) (inflight w)\<rparr>"
  have s: "ServiceCall_start e (nextRef w) (snd (ServiceCall_new m ms t r w))
      = ServiceCall_attempt e (nextRef w) ?w1"
    by (simp add: ServiceCall_start_def ServiceCall_new_def)
  have "ServiceCall_attempt e (nextRef w) ?w1 = waiting_state w m ms t r 0 e"
    using assms
    by (subst ServiceCall_attempt_waits [where c = ?c]) (simp_all add: waiting_state_def)
  with s show ?thesis by simp
qed

lemma next_timer_waiting:
  assumes "list_all (\<lambda>p. fst p < nextHandle w \<and> fst (snd p) \<noteq> Attempt (nextRef w)
              \<and> fst (snd p) \<noteq> OnTimeout (nextRef w)) (timers w)"
  shows "next_timer (nextRef w) (waiting_state w m ms t r k e)
     = Some (nextHandle w + k, Attempt (nextRef w), calculateBackoff (r - 1 - int k) (rnd_backoff e))"
proof -
  have "list_all (\<lambda>p. \<not> (fst (snd p) = Attempt (nextRef w) \<or> fst (snd p) = OnTimeout (nextRef w)))
          (timers w)"
    using assms by (simp add: list_all_iff)
  then show ?thesis
    by (simp add: next_timer_def waiting_state_def find_last)
qed

lemma pump_waiting_fires:
  assumes "list_all (\<lambda>p. fst p < nextHandle w \<and> fst (snd p) \<noteq> Attempt (nextRef w)
              \<and> fst (snd p) \<noteq> OnTimeout (nextRef w)) (timers w)"
  shows "pump (nextRef w) e' (waiting_state w m ms t r k e)
     = ServiceCall_attempt e' (nextRef w) ((waiting_state w m ms t r k e)\<lparr>timers := timers w\<rparr>)"
proof -
  have f: "list_all (\<lambda>p. fst p \<noteq> nextHandle w + k) (timers w)"
    using assms by (auto simp: list_all_iff)
  have t: "timers (waiting_state w m ms t r k e) = timers w @
         [(nextHandle w + k, Attempt (nextRef w),
           calculateBackoff (r - 1 - int k) (rnd_backoff e))]"
    by (simp add: waiting_state_def)
  have "pump (nextRef w) e' (waiting_state w m ms t r k e)
      = fire e' (nextHandle w + k) (waiting_state w m ms t r k e)"
    by (simp add: pump_def next_timer_waiting [OF assms])
  also have "\<dots> = call_attempt e' (nextRef w) ((waiting_state w m ms t r k e)\<lparr>timers := timers w\<rparr>)"
    by (simp add: fire_appended [OF f t])
  also have "\<dots> = ServiceCall_attempt e' (nextRef w)
      ((waiting_state w m ms t r k e)\<lparr>timers := timers w\<rparr>)"
    by (simp add: call_attempt_def waiting_state_def)
  finally show ?thesis .
qed

lemma pump_waiting:
  assumes "list_all (\<lambda>p. fst p < nextHandle w \<and> fst (snd p) \<noteq> Attempt (nextRef w)
              \<and> fst (snd p) \<noteq> OnTimeout (nextRef w)) (timers w)"
    and "ws w \<noteq> Some OPEN" and "int k + 1 < r"
  shows "pump (nextRef w) e' (waiting_state w m ms t r k e) = waiting_state w m ms t r (Suc k) e'"
proof -
  let ?c = "\<lparr>mid = m, msg = ms, timeout = t, retries = r - 1 - int k, timeoutId = None,
             complete = False\<rparr>"
  have "ServiceCall_attempt e' (nextRef w) ((waiting_state w m ms t r k e)\<lparr>timers := timers w\<rparr>)
      = waiting_state w m ms t r (Suc k) e'"
    using assms(2,3)
    by (subst ServiceCall_attempt_waits [where c = ?c])
       (simp_all add: waiting_state_def replicate_append_same algebra_simps)
  then show ?thesis by (simp only: pump_waiting_fires [OF assms(1)])
qed

lemma pump_last:
  assumes "list_all (\<lambda>p. fst p < nextHandle w \<and> fst (snd p) \<noteq> Attempt (nextRef w)
              \<and> fst (snd p) \<noteq> OnTimeout (nextRef w)) (timers w)"
    and "int k + 1 = r"
  shows "pump (nextRef w) e' (waiting_state w m ms t r k e) =
     w\<lparr>inflight := AList.delete m (AList.update m (nextRef w) (inflight w)),
       heap := (heap w)(nextRef w \<mapsto>
                 Single \<lparr>mid = m, msg = ms, timeout = t, retries = - 1,
                         timeoutId = None, complete = False\<rparr>),
       nextHandle := Suc (nextHandle w + k),
       nextRef := Suc (nextRef w),
       trace := trace w @ replicate (Suc k) (Log ''waiting for socket reconnection...'') @
         [Log ''ran out of retries'', CallError (nextRef w) (ErrorStr ''Ran out of retries'')]\<rparr>"
proof -
  let ?c = "\<lparr>mid = m, msg = ms, timeout = t, retries = r - 1 - int k, timeoutId = None,
             complete = False\<rparr>"
  have "ServiceCall_attempt e' (nextRef w) ((waiting_state w m ms t r k e)\<lparr>timers := timers w\<rparr>)
      = w\<lparr>inflight := AList.delete m (AList.update m (nextRef w) (inflight w)),
       heap := (heap w)(nextRef w \<mapsto>
                 Single \<lparr>mid = m, msg = ms, timeout = t, retries = - 1,
                         timeoutId = None, complete = False\<rparr>),
       nextHandle := Suc (nextHandle w + k),
       nextRef := Suc (nextRef w),
       trace := trace w @ replicate (Suc k) (Log ''waiting for socket reconnection...'') @
         [Log ''ran out of retries'', CallError (nextRef w) (ErrorStr ''Ran out of retries'')]\<rparr>"
    using assms(2) [symmetric]
    by (subst ServiceCall_attempt_exhausts [where c = ?c]) (simp_all add: waiting_state_def)
  then show ?thesis by (simp only: pump_waiting_fires [OF assms(1)])
qed

lemma run_timers_snoc: "run_timers a (es @ [e]) w = pump a e (run_timers a es w)"
  by (simp add: run_timers_def)

lemma unanswered_waiting:
  assumes "list_all (\<lambda>p. fst p < nextHandle w \<and> fst (snd p) \<noteq> Attempt (nextRef w)
              \<and> fst (snd p) \<noteq> OnTimeout (nextRef w)) (timers w)"
    and "ws w \<noteq> Some OPEN" and "int k < r" and "k \<le> length es"
  shows "unanswered e (take k es) m ms t r w = waiting_state w m ms t r k ((e # es) ! k)"
  using assms(3,4)
proof (induction k)
  case 0
  then show ?case
    by (simp add: unanswered_def run_timers_def start_waits [OF _ assms(2)])
next
  case (Suc k)
  from Suc.prems have k: "int k < r" "k \<le> length es" "k < length es" "int k + 1 < r"
    by simp_all
  have "unanswered e (take (Suc k) es) m ms t r w
      = pump (nextRef w) (es ! k) (unanswered e (take k es) m ms t r w)"
    by (simp add: unanswered_def take_Suc_conv_app_nth [OF k(3)] run_timers_snoc)
  also have "\<dots> = pump (nextRef w) (es ! k) (waiting_state w m ms t r k ((e # es) ! k))"
    by (simp only: Suc.IH [OF k(1,2)])
  also have "\<dots> = waiting_state w m ms t r (Suc k) (es ! k)"
    by (rule pump_waiting [OF assms(1,2) k(4)])
  finally show ?case by simp
qed

lemma unanswered_fails:
  assumes "list_all (\<lambda>p. fst p < nextHandle w \<and> fst (snd p) \<noteq> Attempt (nextRef w)
              \<and> fst (snd p) \<noteq> OnTimeout (nextRef w)) (timers w)"
    and "ws w \<noteq> Some OPEN" and "0 \<le> r" and "length es = nat r"
  shows "unanswered e es m ms t r w =
     w\<lparr>inflight := AList.delete m (AList.update m (nextRef w) (inflight w)),
       heap := (heap w)(nextRef w \<mapsto>
                 Single \<lparr>mid = m, msg = ms, timeout = t, retries = - 1,
                         timeoutId = None, complete = False\<rparr>),
       nextHandle := nextHandle w + nat r,
       nextRef := Suc (nextRef w),
       trace := trace w @ replicate (nat r) (Log ''waiting for socket reconnection...'') @
         [Log ''ran out of retries'', CallError (nextRef w) (ErrorStr ''Ran out of retries'')]\<rparr>"
proof (cases "r = 0")
  case True
  let ?c = "\<lparr>mid = m, msg = ms, timeout = t, retries = 0, timeoutId = None, complete = False\<rparr>"
  let ?w1 = "w\<lparr>heap := (heap w)(nextRef w \<mapsto> Single ?c), nextRef := Suc (nextRef w),
               inflight := AList.update m (nextRef w) (inflight w)\<rparr>"
  from True assms(4) have es: "es = []" by simp
  have "unanswered e es m ms t r w = ServiceCall_attempt e (nextRef w) ?w1"
    by (simp add: unanswered_def run_timers_def es True ServiceCall_start_def ServiceCall_new_def)
  also have "\<dots> = w\<lparr>inflight := AList.delete m (AList.update m (nextRef w) (inflight w)),
       heap := (heap w)(nextRef w \<mapsto>
                 Single \<lparr>mid = m, msg = ms, timeout = t, retries = - 1,
                         timeoutId = None, complete = False\<rparr>),
       nextHandle := nextHandle w + nat r,
       nextRef := Suc (nextRef w),
       trace := trace w @ replicate (nat r) (Log ''waiting for socket reconnection...'') @
         [Log ''ran out of retries'', CallError (nextRef w) (ErrorStr ''Ran out of retries'')]\<rparr>"
    by (subst ServiceCall_attempt_exhausts [where c = ?c]) (simp_all add: True)
  finally show ?thesis .
next
  case False
  with assms(3,4) obtain k where k: "nat r = Suc k" "int k + 1 = r" "int k < r" "k < length es"
    "k \<le> length es"
    by (cases "nat r") auto
  from k(1) assms(4) have es: "es = take k es @ [es ! k]"
    by (metis k(4) lessI take_Suc_conv_app_nth take_all_iff linorder_not_less order_refl)
  have "unanswered e es m ms t r w = pump (nextRef w) (es ! k) (unanswered e (take k es) m ms t r w)"
    by (subst es) (simp add: unanswered_def run_timers_snoc)
  also have "\<dots> = pump (nextRef w) (es ! k) (waiting_state w m ms t r k ((e # es) ! k))"
    by (simp only: unanswered_waiting [OF assms(1,2) k(3,5)])
  finally show ?thesis
    by (simp add: pump_last [OF assms(1) k(2)] k(1))
qed

text \<open>
  Claim C3 counts \<open>retries + 1\<close> invocations of \<open>attempt\<close> that each try to make
  progress before the error. \<open>attempt\<close> decrements the budget before it tests it, so the
  invocation that finds the budget used up tries nothing. With a budget of 0 and the
  socket gone, the one invocation made by \<open>start\<close> sends nothing and arms no timer: it
  invokes the error callback and removes the call from the table.
\<close>

theorem no_budget_no_attempt:
  "added offline0 no_budget_world
     = [Log ''ran out of retries'', CallError 0 (ErrorStr ''Ran out of retries'')]
   \<and> timers no_budget_world = []
   \<and> inflight no_budget_world = []"
  by (simp add: no_budget_world_def offline0_def makeRequest_def getNextId_def
      ServiceCall_new_def ServiceCall_start_def ServiceCall_attempt_def envelope_def
      clearTimeout_def emit_def client0_def env0_def digit_char_def added_def Let_def)

text \<open>
  Claim C3 as amended. Let a single-response call be constructed with a budget
  \<open>r \<ge> 0\<close> and started while the socket is not open, in a world whose pending timers
  are not bound to the new call, and let it get no reply. Then \<open>attempt\<close> is invoked
  \<open>r + 1\<close> times in all, once by \<open>start\<close> and once by each of \<open>r\<close> timers. After
  \<open>start\<close> and \<open>k < r\<close> timers no callback has run, the call is registered, and exactly
  the backoff timer armed by the last attempt is pending, with the delay
  \<open>calculateBackoff (r - 1 - k)\<close>. The attempt made by the \<open>r\<close>-th timer finds the
  budget used up: it invokes the error callback with "Ran out of retries", and then the
  call has no pending timer and no entry in the table. So \<open>r\<close> invocations try to make
  progress, and the invocation after them fails the call.
\<close>

theorem unanswered_call_fails_on_last_attempt:
  assumes "list_all (\<lambda>p. fst p < nextHandle w \<and> fst (snd p) \<noteq> Attempt (nextRef w)
              \<and> fst (snd p) \<noteq> OnTimeout (nextRef w)) (timers w)"
    and "ws w \<noteq> Some OPEN" and "0 \<le> r" and "length es = nat r"
  shows "(\<forall>k < nat r.
            filter is_callback (added w (unanswered e (take k es) m ms t r w)) = []
            \<and> map_of (inflight (unanswered e (take k es) m ms t r w)) m = Some (nextRef w)
            \<and> next_timer (nextRef w) (unanswered e (take k es) m ms t r w)
                = Some (nextHandle w + k, Attempt (nextRef w),
                        calculateBackoff (r - 1 - int k) (rnd_backoff ((e # es) ! k))))
     \<and> filter is_callback (added w (unanswered e es m ms t r w))
         = [CallError (nextRef w) (ErrorStr ''Ran out of retries'')]
     \<and> map_of (inflight (unanswered e es m ms t r w)) m = None
     \<and> next_timer (nextRef w) (unanswered e es m ms t r w) = None
     \<and> timers (unanswered e es m ms t r w) = timers w"
proof -
  {
    fix k assume k: "k < nat r"
    then have k': "int k < r" "k \<le> length es" using assms(4) by simp_all
    note eq = unanswered_waiting [OF assms(1,2) k', of e m ms t]
    have "filter is_callback (added w (unanswered e (take k es) m ms t r w)) = []"
      unfolding eq by (simp add: waiting_state_def added_def)
    moreover have "map_of (inflight (unanswered e (take k es) m ms t r w)) m = Some (nextRef w)"
      unfolding eq by (simp add: waiting_state_def update_conv')
    moreover have "next_timer (nextRef w) (unanswered e (take k es) m ms t r w)
                = Some (nextHandle w + k, Attempt (nextRef w),
                        calculateBackoff (r - 1 - int k) (rnd_backoff ((e # es) ! k)))"
      unfolding eq by (rule next_timer_waiting [OF assms(1)])
    ultimately have "filter is_callback (added w (unanswered e (take k es) m ms t r w)) = []
            \<and> map_of (inflight (unanswered e (take k es) m ms t r w)) m = Some (nextRef w)
            \<and> next_timer (nextRef w) (unanswered e (take k es) m ms t r w)
                = Some (nextHandle w + k, Attempt (nextRef w),
                        calculateBackoff (r - 1 - int k) (rnd_backoff ((e # es) ! k)))"
      by blast
  } note a = this
  note eq = unanswered_fails [OF assms, of e m ms t]
  have n: "list_all (\<lambda>p. \<not> (fst (snd p) = Attempt (nextRef w) \<or> fst (snd p) = OnTimeout (nextRef w)))
          (timers w)"
    using assms(1) by (simp add: list_all_iff)
  have b: "filter is_callback (added w (unanswered e es m ms t r w))
         = [CallError (nextRef w) (ErrorStr ''Ran out of retries'')]"
    unfolding eq by (simp add: added_def)
  have c: "map_of (inflight (unanswered e es m ms t r w)) m = None"
    unfolding eq by (simp add: map_of_delete_same)
  have d: "next_timer (nextRef w) (unanswered e es m ms t r w) = None"
    unfolding eq by (simp add: next_timer_def find_none [OF n])
  have f: "timers (unanswered e es m ms t r w) = timers w"
    unfolding eq by simp
  from a b c d f show ?thesis by blast
qed

theorem unanswered_call_fails_on_last_attempt_witness:
  "filter is_callback (added offline0 (unanswered env0 (take 1 [env0, env0]) ''tab-1'' JNull 10000 2 offline0)) = []
   \<and> next_timer 0 (unanswered env0 (take 1 [env0, env0]) ''tab-1'' JNull 10000 2 offline0)
       = Some (2, Attempt 0, 16500)
   \<and> filter is_callback (added offline0 (unanswered env0 [env0, env0] ''tab-1'' JNull 10000 2 offline0))
       = [CallError 0 (ErrorStr ''Ran out of retries'')]
   \<and> map_of (inflight (unanswered env0 [env0, env0] ''tab-1'' JNull 10000 2 offline0)) ''tab-1'' = None
   \<and> timers (unanswered env0 [env0, env0] ''tab-1'' JNull 10000 2 offline0) = []"
proof -
  have h: "list_all (\<lambda>p. fst p < nextHandle offline0 \<and> fst (snd p) \<noteq> Attempt (nextRef offline0)
              \<and> fst (snd p) \<noteq> OnTimeout (nextRef offline0)) (timers offline0)"
    "ws offline0 \<noteq> Some OPEN" "(0::int) \<le> 2" "length [env0, env0] = nat 2"
    by (simp_all add: offline0_def client0_def)
  note t = unanswered_call_fails_on_last_attempt [OF h, of env0 "''tab-1''" JNull 10000]
  from t have "\<And>k. k < nat 2 \<Longrightarrow>
      filter is_callback (added offline0 (unanswered env0 (take k [env0, env0]) ''tab-1'' JNull 10000 2 offline0)) = []
      \<and> next_timer (nextRef offline0) (unanswered env0 (take k [env0, env0]) ''tab-1'' JNull 10000 2 offline0)
                = Some (nextHandle offline0 + k, Attempt (nextRef offline0),
                        calculateBackoff (2 - 1 - int k) (rnd_backoff ((env0 # [env0, env0]) ! k)))"
    by blast
  from this [of 1] have a: "filter is_callback (added offline0 (unanswered env0 (take 1 [env0, env0]) ''tab-1'' JNull 10000 2 offline0)) = []
   \<and> next_timer 0 (unanswered env0 (take 1 [env0, env0]) ''tab-1'' JNull 10000 2 offline0)
       = Some (2, Attempt 0, 16500)"
    by (simp add: offline0_def client0_def env0_def calculateBackoff_def Math_pow2_def)
  from t have b: "filter is_callback (added offline0 (unanswered env0 [env0, env0] ''tab-1'' JNull 10000 2 offline0))
       = [CallError 0 (ErrorStr ''Ran out of retries'')]
   \<and> map_of (inflight (unanswered env0 [env0, env0] ''tab-1'' JNull 10000 2 offline0)) ''tab-1'' = None
   \<and> timers (unanswered env0 [env0, env0] ''tab-1'' JNull 10000 2 offline0) = []"
    by (simp add: offline0_def client0_def)
  from a b show ?thesis by blast
qed

subsection \<open>The two attempt methods compared\<close>

lemmas attempt_defs = ServiceCallMulti_attempt_def ServiceCall_attempt_def
  multi_at_def single_at_def to_multi_def setTimeout_def clearTimeout_def emit_def Let_def

lemma view_exhausted:
  "retries c \<le> 0 \<Longrightarrow>
   call_view a (ServiceCallMulti_attempt e a (multi_at a c f w))
     = call_view a (ServiceCall_attempt e a (single_at a c w))"
  by (cases "timeoutId c"; cases "complete c") (simp_all add: call_view_def attempt_defs)

lemma view_sent:
  "0 < retries c \<Longrightarrow> ws w = Some OPEN \<Longrightarrow> \<not> send_throws e \<Longrightarrow>
   call_view a (ServiceCallMulti_attempt e a (multi_at a c f w))
     = call_view a (ServiceCall_attempt e a (single_at a c w))"
  by (cases "complete c") (simp_all add: call_view_def attempt_defs)

lemma view_send_failed:
  "0 < retries c \<Longrightarrow> ws w = Some OPEN \<Longrightarrow> send_throws e \<Longrightarrow>
   call_view a (ServiceCallMulti_attempt e a (multi_at a c f w))
     = call_view a (ServiceCall_attempt e a (single_at a c w))"
  by (cases "complete c") (simp_all add: call_view_def attempt_defs reopen_def)

lemma view_connecting:
  "0 < retries c \<Longrightarrow> ws w = Some CONNECTING \<Longrightarrow>
   call_view a (ServiceCallMulti_attempt e a (multi_at a c f w))
     = call_view a ((ServiceCall_attempt e a (single_at a c w))
          \<lparr>timers := timers w @ [(nextHandle w, Attempt a, 500)]\<rparr>)
   \<and> timers (ServiceCall_attempt e a (single_at a c w))
       = timers w @ [(nextHandle w, Attempt a, calculateBackoff (retries c - 1) (rnd_backoff e))]"
  by (cases "complete c") (simp_all add: call_view_def attempt_defs)

lemma attempts_closed:
  "0 < retries c \<Longrightarrow> ws w \<noteq> Some OPEN \<Longrightarrow> ws w \<noteq> Some CONNECTING \<Longrightarrow>
   ServiceCall_attempt e a (single_at a c w)
     = snd (setTimeout (Attempt a) (calculateBackoff (retries c - 1) (rnd_backoff e))
         (emit (Log ''waiting for socket reconnection...'')
            (single_at a (c\<lparr>retries := retries c - 1\<rparr>)
               (if complete c
                then emit (Log ''attempt should not be called, request is already complete'') w
                else w))))
   \<and> ServiceCallMulti_attempt e a (multi_at a c f w)
     = snd (setTimeout (Attempt a) (calculateBackoff (retries c - 1) (rnd_backoff e))
         (reopen e
            (emit (Log ''Socket not ready, reopening...'')
               (multi_at a (c\<lparr>retries := retries c - 1\<rparr>) f
                  (if complete c
                   then emit (Log ''attempt should not be called, request is already complete'') w
                   else w)))))"
  by (cases "complete c")
     (simp_all add: ServiceCallMulti_attempt_def ServiceCall_attempt_def multi_at_def
        single_at_def to_multi_def emit_def Let_def)

text \<open>
  Claim C9 says that \<^verbatim>\<open>ServiceCallMulti.attempt\<close> does what \<^verbatim>\<open>ServiceCall.attempt\<close>
  does in every shared input state. Take the same fresh call with three retries in the
  same client. While the socket is connecting, the single-response call arms its backoff
  timer (4500 ms here) and the multi-response call a timer of 500 ms. With no socket, the
  single-response call only waits, and the multi-response call has the client open a
  new socket.
\<close>

theorem attempts_differ_when_not_open:
  "timers (ServiceCall_attempt env0 0 (single_at 0 demo_call connecting0)) = [(1, Attempt 0, 4500)]
   \<and> timers (ServiceCallMulti_attempt env0 0 (multi_at 0 demo_call (\<lambda>p. True) connecting0))
       = [(1, Attempt 0, 500)]
   \<and> call_view 0 (ServiceCallMulti_attempt env0 0 (multi_at 0 demo_call (\<lambda>p. True) connecting0))
       \<noteq> call_view 0 (ServiceCall_attempt env0 0 (single_at 0 demo_call connecting0))
   \<and> ws (ServiceCall_attempt env0 0 (single_at 0 demo_call offline0)) = None
   \<and> ws (ServiceCallMulti_attempt env0 0 (multi_at 0 demo_call (\<lambda>p. True) offline0))
       = Some CONNECTING
   \<and> filter (\<lambda>ev. \<not> is_Log ev)
        (trace (ServiceCall_attempt env0 0 (single_at 0 demo_call offline0))) = []
   \<and> filter (\<lambda>ev. \<not> is_Log ev)
        (trace (ServiceCallMulti_attempt env0 0 (multi_at 0 demo_call (\<lambda>p. True) offline0)))
       = [AddListeners]"
proof -
  have a: "timers (ServiceCall_attempt env0 0 (single_at 0 demo_call connecting0))
      = [(1, Attempt 0, 4500)]"
    by (simp add: attempt_defs demo_call_def connecting0_def client0_def env0_def
        calculateBackoff_def Math_pow2_def)
  have b: "timers (ServiceCallMulti_attempt env0 0 (multi_at 0 demo_call (\<lambda>p. True) connecting0))
       = [(1, Attempt 0, 500)]"
    by (simp add: attempt_defs demo_call_def connecting0_def client0_def env0_def)
  from a b have c: "call_view 0 (ServiceCallMulti_attempt env0 0 (multi_at 0 demo_call (\<lambda>p. True) connecting0))
       \<noteq> call_view 0 (ServiceCall_attempt env0 0 (single_at 0 demo_call connecting0))"
  proof -
    have "timers (snd (call_view 0 (ServiceCallMulti_attempt env0 0
              (multi_at 0 demo_call (\<lambda>p. True) connecting0)))) = [(1, Attempt 0, 500)]"
      using b by (simp add: call_view_def)
    moreover have "timers (snd (call_view 0 (ServiceCall_attempt env0 0
              (single_at 0 demo_call connecting0)))) = [(1, Attempt 0, 4500)]"
      using a by (simp add: call_view_def)
    ultimately show ?thesis by auto
  qed
  have d: "ws (ServiceCall_attempt env0 0 (single_at 0 demo_call offline0)) = None
   \<and> filter (\<lambda>ev. \<not> is_Log ev)
        (trace (ServiceCall_attempt env0 0 (single_at 0 demo_call offline0))) = []"
    by (simp add: attempt_defs demo_call_def offline0_def client0_def env0_def)
  have f: "ws (ServiceCallMulti_attempt env0 0 (multi_at 0 demo_call (\<lambda>p. True) offline0))
       = Some CONNECTING
   \<and> filter (\<lambda>ev. \<not> is_Log ev)
        (trace (ServiceCallMulti_attempt env0 0 (multi_at 0 demo_call (\<lambda>p. True) offline0)))
       = [AddListeners]"
    by (simp add: attempt_defs reopen_def openSocket_def demo_call_def offline0_def client0_def
        env0_def)
  from a b c d f show ?thesis by blast
qed

text \<open>
  Claim C9 as amended. The two methods agree, up to the wording of console lines, when
  the budget is used up and when the socket is open (whether the send succeeds or
  throws; the \<^verbatim>\<open>reopen\<close> of the multi-response call does nothing to an open socket).
  While the socket is connecting they differ in the delay only: the single-response call
  arms its backoff delay, the multi-response call 500 ms. With no usable socket both arm
  the same backoff delay, the multi-response call after calling \<^verbatim>\<open>reopen\<close> on the
  client.
\<close>

theorem multi_attempt_compared:
  "(retries c \<le> 0 \<longrightarrow>
      call_view a (ServiceCallMulti_attempt e a (multi_at a c f w))
        = call_view a (ServiceCall_attempt e a (single_at a c w)))
   \<and> (0 < retries c \<and> ws w = Some OPEN \<longrightarrow>
      call_view a (ServiceCallMulti_attempt e a (multi_at a c f w))
        = call_view a (ServiceCall_attempt e a (single_at a c w)))
   \<and> (0 < retries c \<and> ws w = Some CONNECTING \<longrightarrow>
      call_view a (ServiceCallMulti_attempt e a (multi_at a c f w))
        = call_view a ((ServiceCall_attempt e a (single_at a c w))
            \<lparr>timers := timers w @ [(nextHandle w, Attempt a, 500)]\<rparr>)
      \<and> timers (ServiceCall_attempt e a (single_at a c w))
          = timers w @ [(nextHandle w, Attempt a, calculateBackoff (retries c - 1) (rnd_backoff e))])
   \<and> (0 < retries c \<and> ws w \<noteq> Some OPEN \<and> ws w \<noteq> Some CONNECTING \<longrightarrow>
      ServiceCall_attempt e a (single_at a c w)
        = snd (setTimeout (Attempt a) (calculateBackoff (retries c - 1) (rnd_backoff e))
            (emit (Log ''waiting for socket reconnection...'')
               (single_at a (c\<lparr>retries := retries c - 1\<rparr>)
                  (if complete c
                   then emit (Log ''attempt should not be called, request is already complete'') w
                   else w))))
      \<and> ServiceCallMulti_attempt e a (multi_at a c f w)
        = snd (setTimeout (Attempt a) (calculateBackoff (retries c - 1) (rnd_backoff e))
            (reopen e
               (emit (Log ''Socket not ready, reopening...'')
                  (multi_at a (c\<lparr>retries := retries c - 1\<rparr>) f
                     (if complete c
                      then emit (Log ''attempt should not be called, request is already complete'') w
                      else w))))))"
proof -
  have "0 < retries c \<and> ws w = Some OPEN \<longrightarrow>
      call_view a (ServiceCallMulti_attempt e a (multi_at a c f w))
        = call_view a (ServiceCall_attempt e a (single_at a c w))"
    using view_sent [of c w e a f] view_send_failed [of c w e a f] by blast
  with view_exhausted [of c a e f w] view_connecting [of c w a e f] attempts_closed [of c w e a f]
  show ?thesis by blast
qed

theorem multi_attempt_compared_witness:
  "call_view 0 (ServiceCallMulti_attempt env0 0 (multi_at 0 (demo_call\<lparr>retries := 0\<rparr>) (\<lambda>p. True) client0))
     = call_view 0 (ServiceCall_attempt env0 0 (single_at 0 (demo_call\<lparr>retries := 0\<rparr>) client0))
   \<and> call_view 0 (ServiceCallMulti_attempt env0 0 (multi_at 0 demo_call (\<lambda>p. True) client0))
     = call_view 0 (ServiceCall_attempt env0 0 (single_at 0 demo_call client0))
   \<and> call_view 0 (ServiceCallMulti_attempt env0 0 (multi_at 0 demo_call (\<lambda>p. True) connecting0))
     = call_view 0 ((ServiceCall_attempt env0 0 (single_at 0 demo_call connecting0))
         \<lparr>timers := [(1, Attempt 0, 500)]\<rparr>)
   \<and> ServiceCallMulti_attempt env0 0 (multi_at 0 demo_call (\<lambda>p. True) offline0)
     = snd (setTimeout (Attempt 0) 4500
         (reopen env0
            (emit (Log ''Socket not ready, reopening...'')
               (multi_at 0 (demo_call\<lparr>retries := 2\<rparr>) (\<lambda>p. True) offline0))))"
proof -
  have a: "call_view 0 (ServiceCallMulti_attempt env0 0 (multi_at 0 (demo_call\<lparr>retries := 0\<rparr>) (\<lambda>p. True) client0))
     = call_view 0 (ServiceCall_attempt env0 0 (single_at 0 (demo_call\<lparr>retries := 0\<rparr>) client0))"
    using multi_attempt_compared [of "demo_call\<lparr>retries := 0\<rparr>" 0 env0 "\<lambda>p. True" client0]
    by simp
  have b: "call_view 0 (ServiceCallMulti_attempt env0 0 (multi_at 0 demo_call (\<lambda>p. True) client0))
     = call_view 0 (ServiceCall_attempt env0 0 (single_at 0 demo_call client0))"
    using multi_attempt_compared [of demo_call 0 env0 "\<lambda>p. True" client0]
    by (simp add: demo_call_def client0_def)
  have c: "call_view 0 (ServiceCallMulti_attempt env0 0 (multi_at 0 demo_call (\<lambda>p. True) connecting0))
     = call_view 0 ((ServiceCall_attempt env0 0 (single_at 0 demo_call connecting0))
         \<lparr>timers := [(1, Attempt 0, 500)]\<rparr>)"
    using multi_attempt_compared [of demo_call 0 env0 "\<lambda>p. True" connecting0]
    by (simp add: demo_call_def connecting0_def client0_def)
  have d: "ServiceCallMulti_attempt env0 0 (multi_at 0 demo_call (\<lambda>p. True) offline0)
     = snd (setTimeout (Attempt 0) 4500
         (reopen env0
            (emit (Log ''Socket not ready, reopening...'')
               (multi_at 0 (demo_call\<lparr>retries := 2\<rparr>) (\<lambda>p. True) offline0))))"
    using multi_attempt_compared [of demo_call 0 env0 "\<lambda>p. True" offline0]
    by (simp add: demo_call_def offline0_def client0_def env0_def calculateBackoff_def
        Math_pow2_def)
  from a b c d show ?thesis by blast
qed

end
